theory Spec2Isabelle
  imports Main "HOL-Library.Log_Nat"
begin

section \<open>JavaScript values used by the sources\<close>

text \<open>
  The process environment \<^verbatim>\<open>process.env\<close> is a finite table of strings. The idiom
  \<^verbatim>\<open>process.env.X || d\<close> yields \<open>d\<close> when the variable is unset or the empty
  string (both are falsy), and the variable's value otherwise.
\<close>

type_synonym env = "string \<rightharpoonup> string"

definition env_or :: "env \<Rightarrow> string \<Rightarrow> string \<Rightarrow> string" where
  "env_or e x d = (case e x of None \<Rightarrow> d | Some v \<Rightarrow> if v = [] then d else v)"

text \<open>
  \<^verbatim>\<open>s || d\<close> on an optional string field of a JSON object: \<open>None\<close> is a missing
  (undefined or null) field.
\<close>

definition str_or :: "string option \<Rightarrow> string \<Rightarrow> string" where
  "str_or s d = (case s of None \<Rightarrow> d | Some v \<Rightarrow> if v = [] then d else v)"

definition falsy_str :: "string option \<Rightarrow> bool" where
  "falsy_str s = (case s of None \<Rightarrow> True | Some v \<Rightarrow> v = [])"

definition falsy_num :: "int option \<Rightarrow> bool" where
  "falsy_num n = (case n of None \<Rightarrow> True | Some v \<Rightarrow> v = 0)"

subsection \<open>BigInt to decimal string and back\<close>

definition digit_char :: "nat \<Rightarrow> char" where
  "digit_char d = ''0123456789'' ! d"

definition digit_value :: "char \<Rightarrow> nat option" where
  "digit_value c = map_of (zip ''0123456789'' [0, 1, 2, 3, 4, 5, 6, 7, 8, 9]) c"

fun decimal_digits :: "nat \<Rightarrow> string" where
  "decimal_digits n =
     (if n < 10 then [digit_char n]
      else decimal_digits (n div 10) @ [digit_char (n mod 10)])"

declare decimal_digits.simps [simp del]

text \<open>
  \<^verbatim>\<open>BigInt.prototype.toString()\<close>: the decimal digits without leading zeros, with a
  minus sign in front of a negative value.
\<close>

definition bigint_toString :: "int \<Rightarrow> string" where
  "bigint_toString i =
     (if i < 0 then CHR ''-'' # decimal_digits (nat (- i)) else decimal_digits (nat i))"

fun parse_digits :: "string \<Rightarrow> nat \<Rightarrow> nat option" where
  "parse_digits [] acc = Some acc"
| "parse_digits (c # cs) acc =
     (case digit_value c of None \<Rightarrow> None | Some d \<Rightarrow> parse_digits cs (acc * 10 + d))"

text \<open>
  \<^verbatim>\<open>BigInt(s)\<close> on the decimal strings of the wire form: an optional sign followed by
  decimal digits; the empty string reads as zero, a sign without digits and any other
  character are a SyntaxError (\<open>None\<close>). White space and the radix prefixes that
  \<^verbatim>\<open>BigInt\<close> also accepts are outside this reading and give \<open>None\<close> here.
\<close>

definition parse_bigint :: "string \<Rightarrow> int option" where
  "parse_bigint s =
     (case s of
        [] \<Rightarrow> Some 0
      | c # cs \<Rightarrow>
          if c = CHR ''-'' then
            (if cs = [] then None else map_option (\<lambda>n. - int n) (parse_digits cs 0))
          else if c = CHR ''+'' then
            (if cs = [] then None else map_option int (parse_digits cs 0))
          else map_option int (parse_digits s 0))"

section \<open>Network registry (lib/networks.ts)\<close>

record Chain =
  chain_id :: int
  chain_name :: string

record NativeCurrency =
  currency_name :: string
  symbol :: string
  decimals :: nat

record Erc3009Domain =
  domain_name :: string
  version :: string
  chainId :: int
  verifyingContract :: string

record NetworkConfig =
  chain :: Chain
  name :: string
  displayName :: string
  rpcUrl :: string
  blockExplorer :: string
  usdcAddress :: string
  usdcDecimals :: nat
  nativeCurrency :: NativeCurrency
  erc3009Domain :: Erc3009Domain

text \<open>
  The four chain objects that the file imports from the wagmi chain list, with the chain
  id and name that library gives them (the ids are also the ones that
  scripts/check-all-domains.ts lists for these networks), and the two chains the file
  declares itself.
\<close>

definition avalancheFuji :: Chain where
  "avalancheFuji = \<lparr>chain_id = 43113, chain_name = ''Avalanche Fuji''\<rparr>"

definition sepolia :: Chain where
  "sepolia = \<lparr>chain_id = 11155111, chain_name = ''Sepolia''\<rparr>"

definition baseSepolia :: Chain where
  "baseSepolia = \<lparr>chain_id = 84532, chain_name = ''Base Sepolia''\<rparr>"

definition polygonAmoy :: Chain where
  "polygonAmoy = \<lparr>chain_id = 80002, chain_name = ''Polygon Amoy''\<rparr>"

definition monadTestnet :: Chain where
  "monadTestnet = \<lparr>chain_id = 10143, chain_name = ''Monad Testnet''\<rparr>"

definition arbitrumSepoliaChain :: Chain where
  "arbitrumSepoliaChain = \<lparr>chain_id = 421614, chain_name = ''Arbitrum Sepolia''\<rparr>"

definition cfg_avalanche_fuji :: "env \<Rightarrow> NetworkConfig" where
  "cfg_avalanche_fuji e =
     \<lparr>chain = avalancheFuji,
      name = ''avalanche-fuji'',
      displayName = ''Avalanche Fuji'',
      rpcUrl = env_or e ''RPC_URL_AVALANCHE_FUJI'' ''https://api.avax-test.network/ext/bc/C/rpc'',
      blockExplorer = ''https://testnet.snowtrace.io'',
      usdcAddress = ''0x5425890298aed601595a70AB815c96711a31Bc65'',
      usdcDecimals = 6,
      nativeCurrency = \<lparr>currency_name = ''Avalanche'', symbol = ''AVAX'', decimals = 18\<rparr>,
      erc3009Domain =
        \<lparr>domain_name = ''USD Coin'', version = ''2'', chainId = 43113,
         verifyingContract = ''0x5425890298aed601595a70AB815c96711a31Bc65''\<rparr>\<rparr>"

definition cfg_ethereum_sepolia :: "env \<Rightarrow> NetworkConfig" where
  "cfg_ethereum_sepolia e =
     \<lparr>chain = sepolia,
      name = ''ethereum-sepolia'',
      displayName = ''Ethereum Sepolia'',
      rpcUrl = env_or e ''RPC_URL_ETHEREUM_SEPOLIA'' ''https://ethereum-sepolia-rpc.publicnode.com'',
      blockExplorer = ''https://sepolia.etherscan.io'',
      usdcAddress =
        env_or e ''NEXT_PUBLIC_USDC_ADDRESS_SEPOLIA'' ''0x1c7D4B196Cb0C7B01d743Fbc6116a902379C7238'',
      usdcDecimals = 6,
      nativeCurrency = \<lparr>currency_name = ''Ethereum'', symbol = ''ETH'', decimals = 18\<rparr>,
      erc3009Domain =
        \<lparr>domain_name = ''USDC'', version = ''2'', chainId = 11155111,
         verifyingContract =
           env_or e ''NEXT_PUBLIC_USDC_ADDRESS_SEPOLIA''
             ''0x1c7D4B196Cb0C7B01d743Fbc6116a902379C7238''\<rparr>\<rparr>"

definition cfg_base_sepolia :: "env \<Rightarrow> NetworkConfig" where
  "cfg_base_sepolia e =
     \<lparr>chain = baseSepolia,
      name = ''base-sepolia'',
      displayName = ''Base Sepolia'',
      rpcUrl = env_or e ''RPC_URL_BASE_SEPOLIA'' ''https://sepolia.base.org'',
      blockExplorer = ''https://sepolia.basescan.org'',
      usdcAddress =
        env_or e ''NEXT_PUBLIC_USDC_ADDRESS_BASE_SEPOLIA''
          ''0x036CbD53842c5426634e7929541eC2318f3dCF7e'',
      usdcDecimals = 6,
      nativeCurrency = \<lparr>currency_name = ''Ethereum'', symbol = ''ETH'', decimals = 18\<rparr>,
      erc3009Domain =
        \<lparr>domain_name = ''USDC'', version = ''2'', chainId = 84532,
         verifyingContract =
           env_or e ''NEXT_PUBLIC_USDC_ADDRESS_BASE_SEPOLIA''
             ''0x036CbD53842c5426634e7929541eC2318f3dCF7e''\<rparr>\<rparr>"

definition cfg_polygon_amoy :: "env \<Rightarrow> NetworkConfig" where
  "cfg_polygon_amoy e =
     \<lparr>chain = polygonAmoy,
      name = ''polygon-amoy'',
      displayName = ''Polygon Amoy'',
      rpcUrl = env_or e ''RPC_URL_POLYGON_AMOY'' ''https://rpc-amoy.polygon.technology'',
      blockExplorer = ''https://amoy.polygonscan.com'',
      usdcAddress =
        env_or e ''NEXT_PUBLIC_USDC_ADDRESS_POLYGON_AMOY''
          ''0x41E94Eb019C0762f9Bfcf9Fb1E58725BfB0e7582'',
      usdcDecimals = 6,
      nativeCurrency = \<lparr>currency_name = ''Polygon'', symbol = ''MATIC'', decimals = 18\<rparr>,
      erc3009Domain =
        \<lparr>domain_name = ''USDC'', version = ''2'', chainId = 80002,
         verifyingContract =
           env_or e ''NEXT_PUBLIC_USDC_ADDRESS_POLYGON_AMOY''
             ''0x41E94Eb019C0762f9Bfcf9Fb1E58725BfB0e7582''\<rparr>\<rparr>"

definition cfg_arbitrum_sepolia :: "env \<Rightarrow> NetworkConfig" where
  "cfg_arbitrum_sepolia e =
     \<lparr>chain = arbitrumSepoliaChain,
      name = ''arbitrum-sepolia'',
      displayName = ''Arbitrum Sepolia'',
      rpcUrl = env_or e ''RPC_URL_ARBITRUM_SEPOLIA'' ''https://sepolia-rollup.arbitrum.io/rpc'',
      blockExplorer = ''https://sepolia.arbiscan.io'',
      usdcAddress =
        env_or e ''NEXT_PUBLIC_USDC_ADDRESS_ARBITRUM_SEPOLIA''
          ''0x75faf114eafb1BDbe2F0316DF893fd58CE46AA4d'',
      usdcDecimals = 6,
      nativeCurrency = \<lparr>currency_name = ''Ethereum'', symbol = ''ETH'', decimals = 18\<rparr>,
      erc3009Domain =
        \<lparr>domain_name = ''USDC'', version = ''2'', chainId = 421614,
         verifyingContract =
           env_or e ''NEXT_PUBLIC_USDC_ADDRESS_ARBITRUM_SEPOLIA''
             ''0x75faf114eafb1BDbe2F0316DF893fd58CE46AA4d''\<rparr>\<rparr>"

definition cfg_monad_testnet :: "env \<Rightarrow> NetworkConfig" where
  "cfg_monad_testnet e =
     \<lparr>chain = monadTestnet,
      name = ''monad-testnet'',
      displayName = ''Monad Testnet'',
      rpcUrl = env_or e ''RPC_URL_MONAD_TESTNET'' ''https://testnet-rpc.monad.xyz'',
      blockExplorer = ''https://testnet.monadvision.com'',
      usdcAddress =
        env_or e ''NEXT_PUBLIC_USDC_ADDRESS_MONAD_TESTNET''
          ''0x534b2f3A21130d7a60830c2Df862319e593943A3'',
      usdcDecimals = 6,
      nativeCurrency = \<lparr>currency_name = ''Monad'', symbol = ''MON'', decimals = 18\<rparr>,
      erc3009Domain =
        \<lparr>domain_name = ''USDC'', version = ''2'', chainId = 10143,
         verifyingContract =
           env_or e ''NEXT_PUBLIC_USDC_ADDRESS_MONAD_TESTNET''
             ''0x534b2f3A21130d7a60830c2Df862319e593943A3''\<rparr>\<rparr>"

text \<open>
  The table keeps the order of the object literal, which \<^verbatim>\<open>Object.values\<close> follows.
  Lookups are by the table's own keys.
\<close>

definition NETWORK_CONFIGS :: "env \<Rightarrow> (string \<times> NetworkConfig) list" where
  "NETWORK_CONFIGS e =
     [(''avalanche-fuji'', cfg_avalanche_fuji e),
      (''ethereum-sepolia'', cfg_ethereum_sepolia e),
      (''base-sepolia'', cfg_base_sepolia e),
      (''polygon-amoy'', cfg_polygon_amoy e),
      (''arbitrum-sepolia'', cfg_arbitrum_sepolia e),
      (''monad-testnet'', cfg_monad_testnet e)]"

datatype error = Error string

definition getNetworkConfig :: "env \<Rightarrow> string \<Rightarrow> error + NetworkConfig" where
  "getNetworkConfig e networkName =
     (case map_of (NETWORK_CONFIGS e) networkName of
        None \<Rightarrow> Inl (Error (''Unsupported network: '' @ networkName))
      | Some config \<Rightarrow> Inr config)"

definition getNetworkByChainId :: "env \<Rightarrow> int \<Rightarrow> NetworkConfig option" where
  "getNetworkByChainId e cid =
     find (\<lambda>config. chain_id (chain config) = cid) (map snd (NETWORK_CONFIGS e))"

definition isNetworkSupported :: "env \<Rightarrow> string \<Rightarrow> bool" where
  "isNetworkSupported e networkName = (networkName \<in> set (map fst (NETWORK_CONFIGS e)))"

section \<open>x402 configuration (lib/x402.ts)\<close>

record X402Config =
  VERSION :: nat
  FACILITATOR_URL :: string
  NETWORK :: string
  USDC_ADDRESS :: string
  PAYMENT_RECIPIENT :: "string option"
  PAYMENT_AMOUNT :: string
  USDC_DECIMALS :: nat
  TIMEOUT_SECONDS :: int

text \<open>
  \<^verbatim>\<open>getX402Config(network?)\<close>: the network name is the argument, else the environment's
  default network, else \<^verbatim>\<open>'avalanche-fuji'\<close>; an unsupported name raises.
\<close>

definition getX402Config :: "env \<Rightarrow> string option \<Rightarrow> error + X402Config" where
  "getX402Config e network =
     (let networkName =
            str_or network (env_or e ''NEXT_PUBLIC_DEFAULT_NETWORK'' ''avalanche-fuji'')
      in case getNetworkConfig e networkName of
           Inl err \<Rightarrow> Inl err
         | Inr networkConfig \<Rightarrow>
             Inr \<lparr>VERSION = 1,
                  FACILITATOR_URL = ''/api/x402'',
                  NETWORK = networkName,
                  USDC_ADDRESS = usdcAddress networkConfig,
                  PAYMENT_RECIPIENT = e ''NEXT_PUBLIC_PAYMENT_RECIPIENT'',
                  PAYMENT_AMOUNT = env_or e ''NEXT_PUBLIC_PAYMENT_AMOUNT'' ''1'',
                  USDC_DECIMALS = usdcDecimals networkConfig,
                  TIMEOUT_SECONDS = 300\<rparr>)"

section \<open>Authorization codec (lib/erc3009.ts)\<close>

record TransferWithAuthorization =
  a_from :: string
  a_to :: string
  a_value :: int
  a_validAfter :: int
  a_validBefore :: int
  a_nonce :: string

record TransferAuthorizationJSON =
  j_from :: string
  j_to :: string
  j_value :: string
  j_validAfter :: string
  j_validBefore :: string
  j_nonce :: string

record SignedAuthorization =
  s_signature :: string
  s_authorization :: TransferWithAuthorization

record SignedAuthorizationJSON =
  sj_signature :: string
  sj_authorization :: TransferAuthorizationJSON

definition getERC3009Domain :: "env \<Rightarrow> string option \<Rightarrow> error + Erc3009Domain" where
  "getERC3009Domain e network =
     (let networkName = str_or network ''avalanche-fuji''
      in case getNetworkConfig e networkName of
           Inl err \<Rightarrow> Inl err
         | Inr networkConfig \<Rightarrow> Inr (erc3009Domain networkConfig))"

text \<open>
  \<^verbatim>\<open>createTransferAuthorization(from, to, amountUSDC, network?)\<close>. What the function
  takes from outside the repository is passed in: \<open>parseUnits\<close> is the decimal-amount
  parser of the viem library (it raises on a malformed amount), \<open>now_ms\<close> is the reading
  of \<^verbatim>\<open>Date.now()\<close> in milliseconds and \<open>nonce\<close> is the 32 random bytes, in hex, that
  \<^verbatim>\<open>generateNonce()\<close> draws. \<^verbatim>\<open>Math.floor(Date.now() / 1000)\<close> is the integer
  quotient; \<^verbatim>\<open>BigInt(now - 60)\<close> is negative when fewer than 60 seconds have passed
  since the epoch.
\<close>

definition createTransferAuthorization ::
  "(string \<Rightarrow> nat \<Rightarrow> error + int) \<Rightarrow> env \<Rightarrow> nat \<Rightarrow> string
     \<Rightarrow> string \<Rightarrow> string \<Rightarrow> string \<Rightarrow> string option
     \<Rightarrow> error + TransferWithAuthorization" where
  "createTransferAuthorization parseUnits e now_ms nonce from to amountUSDC network =
     (case getX402Config e network of
        Inl err \<Rightarrow> Inl err
      | Inr config \<Rightarrow>
          (case parseUnits amountUSDC (USDC_DECIMALS config) of
             Inl err \<Rightarrow> Inl err
           | Inr v \<Rightarrow>
               (let now = int (now_ms div 1000);
                    validAfter = now - 60;
                    validBefore = now + TIMEOUT_SECONDS config
                in Inr \<lparr>a_from = from, a_to = to, a_value = v,
                        a_validAfter = validAfter, a_validBefore = validBefore,
                        a_nonce = nonce\<rparr>)))"

definition createSignedAuthorization ::
  "TransferWithAuthorization \<Rightarrow> string \<Rightarrow> SignedAuthorization" where
  "createSignedAuthorization authorization signature =
     \<lparr>s_signature = signature, s_authorization = authorization\<rparr>"

definition signedAuthorizationToJSON :: "SignedAuthorization \<Rightarrow> SignedAuthorizationJSON" where
  "signedAuthorizationToJSON signedAuth =
     \<lparr>sj_signature = s_signature signedAuth,
      sj_authorization =
        \<lparr>j_from = a_from (s_authorization signedAuth),
         j_to = a_to (s_authorization signedAuth),
         j_value = bigint_toString (a_value (s_authorization signedAuth)),
         j_validAfter = bigint_toString (a_validAfter (s_authorization signedAuth)),
         j_validBefore = bigint_toString (a_validBefore (s_authorization signedAuth)),
         j_nonce = a_nonce (s_authorization signedAuth)\<rparr>\<rparr>"

text \<open>
  The reading direction of the wire form: each decimal-string field goes through
  \<^verbatim>\<open>BigInt\<close>, the hex strings are taken as they are. The repository hands the strings
  to the contract call, whose library reads them this way; the function is written here to
  compare its result with the authorization that was serialized.
\<close>

definition signedAuthorizationFromJSON ::
  "SignedAuthorizationJSON \<Rightarrow> SignedAuthorization option" where
  "signedAuthorizationFromJSON w =
     (case parse_bigint (j_value (sj_authorization w)) of
        None \<Rightarrow> None
      | Some v \<Rightarrow>
          (case parse_bigint (j_validAfter (sj_authorization w)) of
             None \<Rightarrow> None
           | Some va \<Rightarrow>
               (case parse_bigint (j_validBefore (sj_authorization w)) of
                  None \<Rightarrow> None
                | Some vb \<Rightarrow>
                    Some \<lparr>s_signature = sj_signature w,
                          s_authorization =
                            \<lparr>a_from = j_from (sj_authorization w),
                             a_to = j_to (sj_authorization w),
                             a_value = v, a_validAfter = va, a_validBefore = vb,
                             a_nonce = j_nonce (sj_authorization w)\<rparr>\<rparr>)))"

section \<open>Facilitator storage (lib/facilitator-storage.ts)\<close>

datatype status = needs_funding | active | inactive

text \<open>
  A stored facilitator is a JSON object. Records written before the service knew about
  networks have no \<^verbatim>\<open>network\<close> and no \<^verbatim>\<open>chainId\<close> field: both are optional here.
\<close>

record Facilitator =
  fac_id :: string
  fac_name :: string
  encryptedPrivateKey :: string
  systemEncryptedKey :: string
  facilitatorWallet :: string
  paymentRecipient :: string
  createdBy :: string
  createdAt :: nat
  lastUsed :: nat
  totalPayments :: nat
  fac_status :: status
  registrationTxHash :: string
  fac_network :: "string option"
  fac_chainId :: "int option"

subsection \<open>What a request handler acts on\<close>

text \<open>
  One call of the token contract's \<^verbatim>\<open>transferWithAuthorization\<close>: the RPC endpoint and
  contract it goes to, the facilitator wallet that signs and pays for the transaction, and
  the nine arguments. \<open>v\<close> is \<open>None\<close> when \<^verbatim>\<open>parseInt\<close> gives NaN.
\<close>

record transfer_call =
  call_rpcUrl :: string
  call_contract :: string
  call_wallet :: string
  call_from :: string
  call_to :: string
  call_value :: string
  call_validAfter :: string
  call_validBefore :: string
  call_nonce :: string
  call_v :: "int option"
  call_r :: string
  call_s :: string

record receipt =
  gasUsed :: nat
  gasPrice :: "nat option"

text \<open>
  What the chain answers to one call: the submission itself raises (\<open>SubmitFailed\<close>, with
  the error's message), the transaction is accepted under a hash and waiting for it raises
  (\<open>ConfirmFailed\<close>), or waiting returns (\<open>Confirmed\<close>) with the receipt, which the
  library may leave out.
\<close>

datatype leg_outcome =
    SubmitFailed string
  | ConfirmFailed string string
  | Confirmed string "receipt option"

text \<open>
  An audit event. A transaction event carries facilitatorId, facilitatorName, txHash,
  chainId, chainName, fromAddress, toAddress, amount, gasSpent and status, in this order;
  an activation event carries facilitatorId, facilitatorName, chainName, chainId,
  gasFundingAmount and status.
\<close>

datatype event =
    TransactionEvent string string string int string string string string string string
  | FacilitatorActivated string string string int string string

datatype redis_write =
    RedisSet string Facilitator
  | RedisSadd string string
  | RedisDel string
  | RedisSrem string string

text \<open>
  The state outside a handler: the Redis keys holding facilitator records, the members of
  the Redis set of facilitator ids, the write commands sent to Redis so far, the calls
  made to the chain so far with the chain's answers, the audit log, and the reading of
  \<^verbatim>\<open>Date.now()\<close>.
\<close>

record world =
  kv :: "string \<rightharpoonup> Facilitator"
  active_ids :: "string set"
  redis_writes :: "redis_write list"
  ledger :: "(transfer_call \<times> leg_outcome) list"
  events :: "event list"
  clock :: nat

text \<open>
  What the handlers use and the repository does not define: the environment, the
  decryption of a stored key (it raises on a wrong secret), the address of the wallet built
  from a private key (the constructor raises on a malformed key), the native balance a
  network's RPC endpoint reports for an address, and the chain's answer to a transfer call
  given all earlier calls.
\<close>

record runtime =
  rt_env :: env
  decryptPrivateKey :: "string \<Rightarrow> string \<Rightarrow> error + string"
  walletAddress :: "string \<Rightarrow> error + string"
  getBalance :: "string \<Rightarrow> string \<Rightarrow> error + nat"
  chain_answer :: "(transfer_call \<times> leg_outcome) list \<Rightarrow> transfer_call \<Rightarrow> leg_outcome"

definition REDIS_KEY_PREFIX :: string where
  "REDIS_KEY_PREFIX = ''facilitator:''"

definition ACTIVE_LIST_KEY :: string where
  "ACTIVE_LIST_KEY = ''facilitators:active''"

definition redis_set :: "string \<Rightarrow> Facilitator \<Rightarrow> world \<Rightarrow> world" where
  "redis_set key val w =
     w\<lparr>kv := (kv w)(key \<mapsto> val), redis_writes := redis_writes w @ [RedisSet key val]\<rparr>"

definition redis_sadd :: "string \<Rightarrow> string \<Rightarrow> world \<Rightarrow> world" where
  "redis_sadd key member w =
     w\<lparr>active_ids := insert member (active_ids w),
       redis_writes := redis_writes w @ [RedisSadd key member]\<rparr>"

text \<open>
  Modelled from the spec: \<^verbatim>\<open>logEvent\<close> of lib/explorer-logging, a module whose source
  is missing. The audit sink appends the event and never fails the caller.
\<close>

definition logEvent :: "event \<Rightarrow> world \<Rightarrow> world" where
  "logEvent ev w = w\<lparr>events := events w @ [ev]\<rparr>"

definition storeFacilitator :: "Facilitator \<Rightarrow> world \<Rightarrow> world" where
  "storeFacilitator facilitator w =
     (let key = REDIS_KEY_PREFIX @ fac_id facilitator
      in redis_sadd ACTIVE_LIST_KEY (fac_id facilitator) (redis_set key facilitator w))"

definition getFacilitator :: "string \<Rightarrow> world \<Rightarrow> Facilitator option \<times> world" where
  "getFacilitator ident w =
     (let key = REDIS_KEY_PREFIX @ ident
      in case kv w key of
           None \<Rightarrow> (None, w)
         | Some facilitator \<Rightarrow>
             if falsy_str (fac_network facilitator) \<or> falsy_num (fac_chainId facilitator)
             then (let migrated = facilitator\<lparr>fac_network := Some ''avalanche-fuji'',
                                              fac_chainId := Some 43113\<rparr>
                   in (Some migrated, redis_set key migrated w))
             else (Some facilitator, w))"

definition updateFacilitatorStatus :: "string \<Rightarrow> status \<Rightarrow> world \<Rightarrow> error option \<times> world" where
  "updateFacilitatorStatus ident st w =
     (case getFacilitator ident w of
        (None, w1) \<Rightarrow> (Some (Error ''Facilitator not found''), w1)
      | (Some facilitator, w1) \<Rightarrow>
          (None, storeFacilitator (facilitator\<lparr>fac_status := st\<rparr>) w1))"

definition recordPayment :: "string \<Rightarrow> world \<Rightarrow> error option \<times> world" where
  "recordPayment ident w =
     (case getFacilitator ident w of
        (None, w1) \<Rightarrow> (Some (Error ''Facilitator not found''), w1)
      | (Some facilitator, w1) \<Rightarrow>
          (None, storeFacilitator
                   (facilitator\<lparr>totalPayments := totalPayments facilitator + 1,
                                lastUsed := clock w1\<rparr>) w1))"

section \<open>Numbers of the funding check\<close>

text \<open>
  A JavaScript Number is a binary64 value. \<open>round_binary64 q\<close> is the Number nearest to
  the rational \<open>q\<close>: 53 significant bits, ties to the even significand. The exponent is
  not bounded here, so the definition is that of binary64 on its normal range, in which
  every quantity of the funding check lies (a balance below \<open>2^256\<close> wei divided by
  \<open>10^18\<close>, and the literals 0.0001, 0.05 and 0.1).
\<close>

definition round_half_even :: "rat \<Rightarrow> int" where
  "round_half_even x =
     (let f = \<lfloor>x\<rfloor>; r = x - of_int f
      in if r < 1 / 2 then f else if 1 / 2 < r then f + 1
         else if even f then f else f + 1)"

definition binary_exponent :: "rat \<Rightarrow> int" where
  "binary_exponent q =
     (let k = int (floorlog 2 (nat (fst (quotient_of q))))
              - int (floorlog 2 (nat (snd (quotient_of q))))
      in if 2 powi k \<le> q then k else k - 1)"

definition round_binary64 :: "rat \<Rightarrow> rat" where
  "round_binary64 q =
     (if q = 0 then 0
      else if q < 0 then
        - (of_int (round_half_even ((- q) * 2 powi (52 - binary_exponent (- q))))
             * 2 powi (binary_exponent (- q) - 52))
      else of_int (round_half_even (q * 2 powi (52 - binary_exponent q)))
             * 2 powi (binary_exponent q - 52))"

text \<open>
  \<^verbatim>\<open>parseFloat(formatEther(balance))\<close>: formatEther writes \<open>balance / 10^18\<close> exactly
  in decimal, and parseFloat reads a decimal as the Number nearest to its value. The
  literal \<^verbatim>\<open>0.0001\<close> of the source is read in the same way.
\<close>

definition balanceInToken_of :: "nat \<Rightarrow> rat" where
  "balanceInToken_of balance = round_binary64 (of_nat balance / 10 ^ 18)"

text \<open>
  \<^verbatim>\<open>x.toFixed(4)\<close> for a Number \<open>0 \<le> x < 10^21\<close>: the integer nearest to
  \<open>x * 10^4\<close> (the larger one on a tie), written with four digits after the point.
\<close>

definition toFixed4 :: "rat \<Rightarrow> string" where
  "toFixed4 x =
     (let m = decimal_digits (nat \<lfloor>x * 10 ^ 4 + 1 / 2\<rfloor>);
          m' = (if length m \<le> 4 then replicate (5 - length m) (CHR ''0'') @ m else m)
      in take (length m' - 4) m' @ ''.'' @ drop (length m' - 4) m')"

section \<open>Funding monitor (api/facilitator/check-and-activate)\<close>

definition RECOMMENDED_BALANCES :: "(string \<times> rat) list" where
  "RECOMMENDED_BALANCES =
     [(''avalanche-fuji'', round_binary64 (1 / 10)),
      (''ethereum-sepolia'', round_binary64 (5 / 100)),
      (''base-sepolia'', round_binary64 (5 / 100)),
      (''polygon-amoy'', round_binary64 (1 / 10)),
      (''arbitrum-sepolia'', round_binary64 (5 / 100)),
      (''monad-testnet'', round_binary64 (1 / 10)),
      (''optimism-sepolia'', round_binary64 (5 / 100))]"

definition DEACTIVATION_THRESHOLD :: rat where
  "DEACTIVATION_THRESHOLD = round_binary64 (1 / 10000)"

record check_body =
  cb_facilitatorId :: "string option"

record check_result =
  cr_id :: string
  cr_name :: string
  cr_wallet :: string
  cr_balance :: string
  cr_currency :: string
  cr_network :: string
  cr_status :: status
  cr_minimumRequired :: rat
  cr_isFunded :: bool
  cr_recommendedMinimum :: rat

datatype check_response =
    CheckError nat string
  | CheckOk check_result

text \<open>
  The handler, with the table of recommended balances as an argument, so that a property
  can speak about every table. A raise anywhere inside the \<^verbatim>\<open>try\<close> block ends in the
  status 500 answer of the \<^verbatim>\<open>catch\<close> block; what was written before the raise stays
  written.
\<close>

definition check_and_activate_with ::
  "(string \<times> rat) list \<Rightarrow> runtime \<Rightarrow> check_body \<Rightarrow> world \<Rightarrow> check_response \<times> world" where
  "check_and_activate_with recommended rt body w =
     (if falsy_str (cb_facilitatorId body) then (CheckError 400 ''Missing facilitator ID'', w)
      else
        (let facilitatorId = the (cb_facilitatorId body)
         in case getFacilitator facilitatorId w of
              (None, w1) \<Rightarrow> (CheckError 404 ''Facilitator not found'', w1)
            | (Some facilitator, w1) \<Rightarrow>
                (let network = str_or (fac_network facilitator) ''avalanche-fuji''
                 in case getNetworkConfig (rt_env rt) network of
                      Inl err \<Rightarrow> (CheckError 500 ''Failed to check and activate facilitator'', w1)
                    | Inr networkConfig \<Rightarrow>
                        (let recommendedBalance =
                               (case map_of recommended network of
                                  None \<Rightarrow> round_binary64 (1 / 10)
                                | Some x \<Rightarrow> if x = 0 then round_binary64 (1 / 10) else x);
                             currencySymbol = symbol (nativeCurrency networkConfig)
                         in case getBalance rt (rpcUrl networkConfig) (facilitatorWallet facilitator) of
                              Inl err \<Rightarrow>
                                (CheckError 500 ''Failed to check and activate facilitator'', w1)
                            | Inr balance \<Rightarrow>
                                (let balanceInToken = balanceInToken_of balance;
                                     newStatus = (if balanceInToken > DEACTIVATION_THRESHOLD
                                                  then active else needs_funding);
                                     answer = CheckOk
                                       \<lparr>cr_id = fac_id facilitator,
                                        cr_name = fac_name facilitator,
                                        cr_wallet = facilitatorWallet facilitator,
                                        cr_balance = toFixed4 balanceInToken,
                                        cr_currency = currencySymbol,
                                        cr_network = displayName networkConfig,
                                        cr_status = newStatus,
                                        cr_minimumRequired = DEACTIVATION_THRESHOLD,
                                        cr_isFunded = (balanceInToken > DEACTIVATION_THRESHOLD),
                                        cr_recommendedMinimum = recommendedBalance\<rparr>
                                 in if fac_status facilitator \<noteq> newStatus then
                                      (case updateFacilitatorStatus facilitatorId newStatus w1 of
                                         (Some err, w2) \<Rightarrow>
                                           (CheckError 500 ''Failed to check and activate facilitator'', w2)
                                       | (None, w2) \<Rightarrow>
                                           if newStatus = active then
                                             (answer,
                                              logEvent
                                                (FacilitatorActivated (fac_id facilitator)
                                                   (fac_name facilitator)
                                                   (displayName networkConfig)
                                                   (chain_id (chain networkConfig))
                                                   (toFixed4 balanceInToken @ '' '' @ currencySymbol)
                                                   ''success'') w2)
                                           else (answer, w2))
                                    else (answer, w1))))))"

definition check_and_activate_POST :: "runtime \<Rightarrow> check_body \<Rightarrow> world \<Rightarrow> check_response \<times> world" where
  "check_and_activate_POST = check_and_activate_with RECOMMENDED_BALANCES"

text \<open>The status field of the answer, when the answer has one.\<close>

definition check_status :: "check_response \<Rightarrow> status option" where
  "check_status resp = (case resp of CheckOk r \<Rightarrow> Some (cr_status r) | CheckError c m \<Rightarrow> None)"

section \<open>USDC contract table (lib/contracts.ts)\<close>

record UsdcContract =
  uc_address :: string
  uc_decimals :: nat
  uc_symbol :: string
  uc_name :: string

definition USDC_CONTRACTS :: "env \<Rightarrow> (string \<times> UsdcContract) list" where
  "USDC_CONTRACTS e =
     [(''avalanche-fuji'',
       \<lparr>uc_address = ''0x5425890298aed601595a70AB815c96711a31Bc65'', uc_decimals = 6,
        uc_symbol = ''USDC'', uc_name = ''USD Coin''\<rparr>),
      (''ethereum-sepolia'',
       \<lparr>uc_address = env_or e ''NEXT_PUBLIC_USDC_ADDRESS_SEPOLIA'' ''0x'', uc_decimals = 6,
        uc_symbol = ''USDC'', uc_name = ''USD Coin''\<rparr>),
      (''base-sepolia'',
       \<lparr>uc_address = env_or e ''NEXT_PUBLIC_USDC_ADDRESS_BASE_SEPOLIA'' ''0x'', uc_decimals = 6,
        uc_symbol = ''USDC'', uc_name = ''USD Coin''\<rparr>),
      (''polygon-amoy'',
       \<lparr>uc_address = env_or e ''NEXT_PUBLIC_USDC_ADDRESS_POLYGON_AMOY'' ''0x'', uc_decimals = 6,
        uc_symbol = ''USDC'', uc_name = ''USD Coin''\<rparr>)]"

text \<open>
  \<^verbatim>\<open>network.toUpperCase().replace(/-/g, '_')\<close> on a key of the table, which is made
  of lower-case ASCII letters and hyphens.
\<close>

definition upper_underscore :: "string \<Rightarrow> string" where
  "upper_underscore s =
     map (\<lambda>c. if c = CHR ''-'' then CHR ''_''
              else if (97::nat) \<le> of_char c \<and> of_char c \<le> (122::nat)
                   then char_of (of_char c - (32::nat)) else c) s"

definition getUSDCContract :: "env \<Rightarrow> string \<Rightarrow> error + UsdcContract" where
  "getUSDCContract e network =
     (case map_of (USDC_CONTRACTS e) network of
        None \<Rightarrow> Inl (Error (''USDC contract not configured for network: '' @ network))
      | Some contract \<Rightarrow>
          if uc_address contract = [] \<or> uc_address contract = ''0x''
          then Inl (Error (''USDC contract address not set for '' @ network @ ''. ''
                           @ ''Please set NEXT_PUBLIC_USDC_ADDRESS_'' @ upper_underscore network
                           @ '' in .env.local''))
          else Inr contract)"

section \<open>Settlement engine (api/x402/settle-batch and api/x402/settle-custom)\<close>

subsection \<open>Splitting the signature\<close>

definition hex_value :: "char \<Rightarrow> nat option" where
  "hex_value c =
     (case digit_value c of
        Some d \<Rightarrow> Some d
      | None \<Rightarrow>
          if c = CHR ''a'' \<or> c = CHR ''A'' then Some 10
          else if c = CHR ''b'' \<or> c = CHR ''B'' then Some 11
          else if c = CHR ''c'' \<or> c = CHR ''C'' then Some 12
          else if c = CHR ''d'' \<or> c = CHR ''D'' then Some 13
          else if c = CHR ''e'' \<or> c = CHR ''E'' then Some 14
          else if c = CHR ''f'' \<or> c = CHR ''F'' then Some 15
          else None)"

definition is_js_space :: "char \<Rightarrow> bool" where
  "is_js_space c =
     (c \<in> set [CHR 0x09, CHR 0x0A, CHR 0x0B, CHR 0x0C, CHR 0x0D, CHR 0x20, CHR 0xA0])"

text \<open>
  \<^verbatim>\<open>parseInt(str, 16)\<close>: leading white space is skipped, a sign is read, a prefix
  \<^verbatim>\<open>0x\<close> or \<^verbatim>\<open>0X\<close> is skipped, and the longest run of hex digits that follows is the
  value; with no digit there the result is NaN (\<open>None\<close>). A character is one code unit
  below 256 here, which covers the white space listed.
\<close>

definition parseInt16 :: "string \<Rightarrow> int option" where
  "parseInt16 str =
     (let s0 = dropWhile is_js_space str;
          neg = (case s0 of [] \<Rightarrow> False | c # _ \<Rightarrow> c = CHR ''-'');
          s1 = (case s0 of [] \<Rightarrow> []
                | c # cs \<Rightarrow> if c = CHR ''-'' \<or> c = CHR ''+'' then cs else s0);
          s2 = (if take 2 s1 = ''0x'' \<or> take 2 s1 = ''0X'' then drop 2 s1 else s1);
          z = takeWhile (\<lambda>c. hex_value c \<noteq> None) s2;
          n = foldl (\<lambda>acc c. acc * 16 + the (hex_value c)) 0 z
      in if z = [] then None else Some (if neg then - int n else int n))"

definition transfer_call_of ::
  "string \<Rightarrow> string \<Rightarrow> string \<Rightarrow> string \<Rightarrow> TransferAuthorizationJSON \<Rightarrow> transfer_call" where
  "transfer_call_of rpc contract wallet signature authorization =
     (let sig = drop 2 signature;
          r = ''0x'' @ take 64 sig;
          s = ''0x'' @ take 64 (drop 64 sig);
          v = parseInt16 (take 2 (drop 128 sig))
      in \<lparr>call_rpcUrl = rpc, call_contract = contract, call_wallet = wallet,
          call_from = j_from authorization, call_to = j_to authorization,
          call_value = j_value authorization,
          call_validAfter = j_validAfter authorization,
          call_validBefore = j_validBefore authorization,
          call_nonce = j_nonce authorization,
          call_v = v, call_r = r, call_s = s\<rparr>)"

definition gasSpent_of :: "receipt \<Rightarrow> nat" where
  "gasSpent_of rc = gasUsed rc * (case gasPrice rc of None \<Rightarrow> 0 | Some p \<Rightarrow> p)"

definition message_or_unknown :: "error \<Rightarrow> string" where
  "message_or_unknown err = (case err of Error msg \<Rightarrow> if msg = [] then ''Unknown error'' else msg)"

subsection \<open>Reading the ledger\<close>

text \<open>
  The entries an attempt added to the ledger, whether an answer of the chain is a
  confirmation, and the message of the error a failed leg raises.
\<close>

definition new_legs :: "world \<Rightarrow> world \<Rightarrow> (transfer_call \<times> leg_outcome) list" where
  "new_legs w w' = drop (length (ledger w)) (ledger w')"

definition is_confirmed :: "leg_outcome \<Rightarrow> bool" where
  "is_confirmed out = (case out of Confirmed h rc \<Rightarrow> True | _ \<Rightarrow> False)"

definition failed_leg :: "leg_outcome \<Rightarrow> bool" where
  "failed_leg out = (\<not> is_confirmed out)"

definition failure_message :: "leg_outcome \<Rightarrow> string" where
  "failure_message out =
     (case out of SubmitFailed msg \<Rightarrow> msg | ConfirmFailed h msg \<Rightarrow> msg | Confirmed h rc \<Rightarrow> [])"

definition outcome_hash :: "leg_outcome \<Rightarrow> string" where
  "outcome_hash out =
     (case out of SubmitFailed msg \<Rightarrow> [] | ConfirmFailed h msg \<Rightarrow> h | Confirmed h rc \<Rightarrow> h)"

subsection \<open>Batch settlement\<close>

record batch_body =
  bb_facilitatorId :: "string option"
  bb_network :: "string option"
  bb_authorizations :: "SignedAuthorizationJSON list option"

record batch_success =
  bs_txHashes :: "string list"
  bs_txHash :: "string option"
  bs_facilitatorWallet :: string
  bs_facilitatorName :: string
  bs_transferCount :: nat
  bs_totalGasSpent :: string
  bs_network :: string

datatype batch_response =
    BatchError nat string "string option"
  | BatchSuccess batch_success

text \<open>
  The \<^verbatim>\<open>txHashes\<close> field of an answer: the error answer is made of a status code, an
  error label and a message, and has no such field.
\<close>

definition batch_txHashes :: "batch_response \<Rightarrow> string list option" where
  "batch_txHashes resp =
     (case resp of BatchError code label msg \<Rightarrow> None | BatchSuccess s \<Rightarrow> Some (bs_txHashes s))"

definition batch_call :: "NetworkConfig \<Rightarrow> string \<Rightarrow> SignedAuthorizationJSON \<Rightarrow> transfer_call" where
  "batch_call networkConfig wallet signedAuth =
     transfer_call_of (rpcUrl networkConfig) (usdcAddress networkConfig) wallet
       (sj_signature signedAuth) (sj_authorization signedAuth)"

text \<open>
  The loop over the authorizations, from the authorization at hand on: the call is made
  and entered in the ledger with the chain's answer; a raise at submission or at the wait
  leaves the loop with the error; otherwise the hash is pushed, and with a receipt the gas
  is added and the transfer is logged.
\<close>

fun execute_transfers ::
  "runtime \<Rightarrow> string \<Rightarrow> Facilitator \<Rightarrow> NetworkConfig \<Rightarrow> string
     \<Rightarrow> SignedAuthorizationJSON list \<Rightarrow> string list \<Rightarrow> nat \<Rightarrow> world
     \<Rightarrow> (error + string list \<times> nat) \<times> world" where
  "execute_transfers rt facilitatorId facilitator networkConfig wallet [] txHashes totalGasSpent w =
     (Inr (txHashes, totalGasSpent), w)"
| "execute_transfers rt facilitatorId facilitator networkConfig wallet (signedAuth # rest)
     txHashes totalGasSpent w =
     (let call = batch_call networkConfig wallet signedAuth;
          outcome = chain_answer rt (ledger w) call;
          w1 = w\<lparr>ledger := ledger w @ [(call, outcome)]\<rparr>
      in case outcome of
           SubmitFailed msg \<Rightarrow> (Inl (Error msg), w1)
         | ConfirmFailed h msg \<Rightarrow> (Inl (Error msg), w1)
         | Confirmed h None \<Rightarrow>
             execute_transfers rt facilitatorId facilitator networkConfig wallet rest
               (txHashes @ [h]) totalGasSpent w1
         | Confirmed h (Some rc) \<Rightarrow>
             execute_transfers rt facilitatorId facilitator networkConfig wallet rest
               (txHashes @ [h]) (totalGasSpent + gasSpent_of rc)
               (logEvent
                  (TransactionEvent facilitatorId (fac_name facilitator) h
                     (chain_id (chain networkConfig)) (displayName networkConfig)
                     (j_from (sj_authorization signedAuth)) (j_to (sj_authorization signedAuth))
                     (j_value (sj_authorization signedAuth))
                     (bigint_toString (int (gasSpent_of rc))) ''success'') w1))"

definition batch_failed :: "error \<Rightarrow> batch_response" where
  "batch_failed err = BatchError 500 ''Batch settlement failed'' (Some (message_or_unknown err))"

definition settle_batch_POST :: "runtime \<Rightarrow> batch_body \<Rightarrow> world \<Rightarrow> batch_response \<times> world" where
  "settle_batch_POST rt body w =
     (if falsy_str (bb_facilitatorId body) \<or> falsy_str (bb_network body)
         \<or> bb_authorizations body = None
      then (BatchError 400 ''Missing required fields: facilitatorId, network, authorizations'' None, w)
      else
        (let facilitatorId = the (bb_facilitatorId body);
             network = the (bb_network body);
             authorizations = the (bb_authorizations body)
         in if authorizations = []
            then (BatchError 400 ''At least one authorization required'' None, w)
            else
              (case getFacilitator facilitatorId w of
                 (None, w1) \<Rightarrow> (BatchError 404 ''Facilitator not found'' None, w1)
               | (Some facilitator, w1) \<Rightarrow>
                   (let facilitatorNetwork = str_or (fac_network facilitator) ''avalanche-fuji''
                    in if facilitatorNetwork \<noteq> network
                       then (BatchError 400
                               (''Facilitator is on '' @ facilitatorNetwork @ '', not '' @ network)
                               None, w1)
                       else if falsy_str (rt_env rt ''SYSTEM_MASTER_KEY'')
                       then (BatchError 500 ''System configuration error'' None, w1)
                       else
                         (case decryptPrivateKey rt (systemEncryptedKey facilitator)
                                 (the (rt_env rt ''SYSTEM_MASTER_KEY'')) of
                            Inl err \<Rightarrow> (batch_failed err, w1)
                          | Inr privateKey \<Rightarrow>
                              (case getNetworkConfig (rt_env rt) network of
                                 Inl err \<Rightarrow> (batch_failed err, w1)
                               | Inr networkConfig \<Rightarrow>
                                   (case walletAddress rt privateKey of
                                      Inl err \<Rightarrow> (batch_failed err, w1)
                                    | Inr wallet \<Rightarrow>
                                        (case execute_transfers rt facilitatorId facilitator
                                                networkConfig wallet authorizations [] 0 w1 of
                                           (Inl err, w2) \<Rightarrow> (batch_failed err, w2)
                                         | (Inr (txHashes, totalGasSpent), w2) \<Rightarrow>
                                             (case recordPayment facilitatorId w2 of
                                                (Some err, w3) \<Rightarrow> (batch_failed err, w3)
                                              | (None, w3) \<Rightarrow>
                                                  (BatchSuccess
                                                     \<lparr>bs_txHashes = txHashes,
                                                      bs_txHash = (case txHashes of [] \<Rightarrow> None
                                                                   | h # _ \<Rightarrow> Some h),
                                                      bs_facilitatorWallet = wallet,
                                                      bs_facilitatorName = fac_name facilitator,
                                                      bs_transferCount = length txHashes,
                                                      bs_totalGasSpent =
                                                        bigint_toString (int totalGasSpent),
                                                      bs_network = displayName networkConfig\<rparr>,
                                                   w3))))))))))"

text \<open>
  The handler reaches the loop: the body has a facilitator id, a network and a non-empty
  list of authorizations, the facilitator is stored and bound to the requested network,
  the master key is set and decrypts the stored key, the network is registered and the
  wallet is built.
\<close>

definition batch_reaches_loop ::
  "runtime \<Rightarrow> batch_body \<Rightarrow> world \<Rightarrow> string \<Rightarrow> Facilitator \<Rightarrow> world \<Rightarrow> NetworkConfig
     \<Rightarrow> string \<Rightarrow> SignedAuthorizationJSON list \<Rightarrow> bool" where
  "batch_reaches_loop rt body w facilitatorId facilitator w1 networkConfig wallet authorizations =
     (bb_facilitatorId body = Some facilitatorId \<and> facilitatorId \<noteq> []
      \<and> \<not> falsy_str (bb_network body)
      \<and> bb_authorizations body = Some authorizations \<and> authorizations \<noteq> []
      \<and> getFacilitator facilitatorId w = (Some facilitator, w1)
      \<and> str_or (fac_network facilitator) ''avalanche-fuji'' = the (bb_network body)
      \<and> \<not> falsy_str (rt_env rt ''SYSTEM_MASTER_KEY'')
      \<and> getNetworkConfig (rt_env rt) (the (bb_network body)) = Inr networkConfig
      \<and> (case decryptPrivateKey rt (systemEncryptedKey facilitator)
                 (the (rt_env rt ''SYSTEM_MASTER_KEY'')) of
            Inl err \<Rightarrow> False
          | Inr privateKey \<Rightarrow> walletAddress rt privateKey = Inr wallet))"

subsection \<open>Single settlement\<close>

record payload_domain =
  pd_verifyingContract :: "string option"

record payment_payload =
  pp_signature :: string
  pp_authorization :: TransferAuthorizationJSON
  pp_domain :: "payload_domain option"

text \<open>
  The request body of settle-custom. An address field is \<open>None\<close> when the body has no
  such field or the field is not a string; the chain id is \<open>None\<close> when it is not a
  number.
\<close>

record custom_body =
  sb_facilitatorId :: "string option"
  sb_paymentPayload :: "payment_payload option"
  sb_network :: "string option"
  sb_chainId :: "int option"
  sb_usdcAddress :: "string option"
  sb_contractAddress :: "string option"
  sb_verifyingContract :: "string option"

record custom_success =
  cs_txHash :: string
  cs_facilitatorWallet :: string
  cs_facilitatorName :: string
  cs_network :: string
  cs_networkId :: int
  cs_usdcAddress :: string

datatype custom_response =
    CustomError nat string "string option"
  | CustomSuccess custom_success

definition valid_candidate :: "string option \<Rightarrow> bool" where
  "valid_candidate a = (case a of None \<Rightarrow> False | Some addr \<Rightarrow> addr \<noteq> ''0x'' \<and> 42 \<le> length addr)"

definition payload_verifyingContract :: "payment_payload \<Rightarrow> string option" where
  "payload_verifyingContract paymentPayload =
     (case pp_domain paymentPayload of None \<Rightarrow> None | Some d \<Rightarrow> pd_verifyingContract d)"

definition candidateAddresses :: "custom_body \<Rightarrow> payment_payload \<Rightarrow> UsdcContract \<Rightarrow> string list" where
  "candidateAddresses body paymentPayload usdcContractConfig =
     map the (filter valid_candidate
       [sb_usdcAddress body,
        sb_contractAddress body,
        sb_verifyingContract body,
        payload_verifyingContract paymentPayload,
        Some (uc_address usdcContractConfig)])"

definition finalUsdcAddress :: "custom_body \<Rightarrow> payment_payload \<Rightarrow> UsdcContract \<Rightarrow> string" where
  "finalUsdcAddress body paymentPayload usdcContractConfig =
     (case candidateAddresses body paymentPayload usdcContractConfig of
        [] \<Rightarrow> uc_address usdcContractConfig
      | a # _ \<Rightarrow> a)"

definition resolve_network :: "env \<Rightarrow> custom_body \<Rightarrow> Facilitator \<Rightarrow> string" where
  "resolve_network e body facilitator =
     (if \<not> falsy_str (sb_network body) \<and> isNetworkSupported e (the (sb_network body))
      then the (sb_network body)
      else case sb_chainId body of
             Some requestChainId \<Rightarrow>
               (case getNetworkByChainId e requestChainId of
                  Some byChain \<Rightarrow> name byChain
                | None \<Rightarrow> str_or (fac_network facilitator) ''avalanche-fuji'')
           | None \<Rightarrow> str_or (fac_network facilitator) ''avalanche-fuji'')"

definition custom_failed :: "error \<Rightarrow> custom_response" where
  "custom_failed err = CustomError 500 ''Settlement failed'' (Some (message_or_unknown err))"

definition settle_custom_POST :: "runtime \<Rightarrow> custom_body \<Rightarrow> world \<Rightarrow> custom_response \<times> world" where
  "settle_custom_POST rt body w =
     (if falsy_str (sb_facilitatorId body) \<or> sb_paymentPayload body = None
      then (CustomError 400 ''Missing facilitatorId or paymentPayload'' None, w)
      else
        (let facilitatorId = the (sb_facilitatorId body);
             paymentPayload = the (sb_paymentPayload body)
         in case getFacilitator facilitatorId w of
              (None, w1) \<Rightarrow> (CustomError 404 ''Facilitator not found'' None, w1)
            | (Some facilitator, w1) \<Rightarrow>
                (let networkName = resolve_network (rt_env rt) body facilitator
                 in case getNetworkConfig (rt_env rt) networkName of
                      Inl err \<Rightarrow> (custom_failed err, w1)
                    | Inr networkConfig \<Rightarrow>
                        (case getUSDCContract (rt_env rt) networkName of
                           Inl err \<Rightarrow> (custom_failed err, w1)
                         | Inr usdcContractConfig \<Rightarrow>
                             if falsy_str (rt_env rt ''SYSTEM_MASTER_KEY'')
                             then (CustomError 500 ''System configuration error'' None, w1)
                             else
                               (case decryptPrivateKey rt (systemEncryptedKey facilitator)
                                       (the (rt_env rt ''SYSTEM_MASTER_KEY'')) of
                                  Inl err \<Rightarrow> (custom_failed err, w1)
                                | Inr privateKey \<Rightarrow>
                                    (case walletAddress rt privateKey of
                                       Inl err \<Rightarrow> (custom_failed err, w1)
                                     | Inr wallet \<Rightarrow>
                                         (let final = finalUsdcAddress body paymentPayload
                                                        usdcContractConfig;
                                              call = transfer_call_of (rpcUrl networkConfig) final
                                                       wallet (pp_signature paymentPayload)
                                                       (pp_authorization paymentPayload);
                                              outcome = chain_answer rt (ledger w1) call;
                                              w2 = w1\<lparr>ledger := ledger w1 @ [(call, outcome)]\<rparr>
                                          in case outcome of
                                               SubmitFailed msg \<Rightarrow> (custom_failed (Error msg), w2)
                                             | ConfirmFailed h msg \<Rightarrow>
                                                 (custom_failed (Error msg), w2)
                                             | Confirmed h rcpt \<Rightarrow>
                                                 (let gasSpent =
                                                        (case rcpt of
                                                           None \<Rightarrow> ''0''
                                                         | Some rc \<Rightarrow>
                                                             bigint_toString (int (gasSpent_of rc)))
                                                  in case recordPayment facilitatorId w2 of
                                                       (Some err, w3) \<Rightarrow> (custom_failed err, w3)
                                                     | (None, w3) \<Rightarrow>
                                                         (CustomSuccess
                                                            \<lparr>cs_txHash = h,
                                                             cs_facilitatorWallet = wallet,
                                                             cs_facilitatorName =
                                                               fac_name facilitator,
                                                             cs_network = networkName,
                                                             cs_networkId =
                                                               chain_id (chain networkConfig),
                                                             cs_usdcAddress = final\<rparr>,
                                                          logEvent
                                                            (TransactionEvent facilitatorId
                                                               (fac_name facilitator) h
                                                               (chain_id (chain networkConfig))
                                                               (displayName networkConfig)
                                                               (j_from (pp_authorization paymentPayload))
                                                               (j_to (pp_authorization paymentPayload))
                                                               (j_value (pp_authorization paymentPayload))
                                                               gasSpent ''success'') w3)))))))))"

text \<open>
  The call the single-settlement handler makes, and the conditions under which it makes
  one: the body has a facilitator id and a payment payload, the facilitator is stored, the
  resolved network is registered and has a USDC contract, the master key is set and
  decrypts the stored key, and the wallet is built.
\<close>

definition custom_reaches_call ::
  "runtime \<Rightarrow> custom_body \<Rightarrow> world \<Rightarrow> string \<Rightarrow> payment_payload \<Rightarrow> Facilitator \<Rightarrow> world
     \<Rightarrow> NetworkConfig \<Rightarrow> UsdcContract \<Rightarrow> string \<Rightarrow> bool" where
  "custom_reaches_call rt body w facilitatorId paymentPayload facilitator w1 networkConfig
     usdcContractConfig wallet =
     (sb_facilitatorId body = Some facilitatorId \<and> facilitatorId \<noteq> []
      \<and> sb_paymentPayload body = Some paymentPayload
      \<and> getFacilitator facilitatorId w = (Some facilitator, w1)
      \<and> getNetworkConfig (rt_env rt) (resolve_network (rt_env rt) body facilitator)
            = Inr networkConfig
      \<and> getUSDCContract (rt_env rt) (resolve_network (rt_env rt) body facilitator)
            = Inr usdcContractConfig
      \<and> \<not> falsy_str (rt_env rt ''SYSTEM_MASTER_KEY'')
      \<and> (case decryptPrivateKey rt (systemEncryptedKey facilitator)
                 (the (rt_env rt ''SYSTEM_MASTER_KEY'')) of
            Inl err \<Rightarrow> False
          | Inr privateKey \<Rightarrow> walletAddress rt privateKey = Inr wallet))"

definition custom_call ::
  "custom_body \<Rightarrow> payment_payload \<Rightarrow> NetworkConfig \<Rightarrow> UsdcContract \<Rightarrow> string \<Rightarrow> transfer_call" where
  "custom_call body paymentPayload networkConfig usdcContractConfig wallet =
     transfer_call_of (rpcUrl networkConfig)
       (finalUsdcAddress body paymentPayload usdcContractConfig) wallet
       (pp_signature paymentPayload) (pp_authorization paymentPayload)"

section \<open>Example inputs\<close>

text \<open>
  A store with one facilitator bound to Avalanche Fuji and one record from before the
  service knew about networks; a chain that accepts a transfer unless a confirmed transfer
  in the ledger already used the same nonce; an amount reader that knows one amount.
\<close>

definition ex_facilitator :: Facilitator where
  "ex_facilitator =
     \<lparr>fac_id = ''fac_1'', fac_name = ''Demo'',
      encryptedPrivateKey = ''enc-user'', systemEncryptedKey = ''enc-system'',
      facilitatorWallet = ''0x1111111111111111111111111111111111111111'',
      paymentRecipient = ''0x2222222222222222222222222222222222222222'',
      createdBy = ''0x3333333333333333333333333333333333333333'',
      createdAt = 1700000000000, lastUsed = 1700000000000, totalPayments = 7,
      fac_status = active, registrationTxHash = ''0xreg'',
      fac_network = Some ''avalanche-fuji'', fac_chainId = Some 43113\<rparr>"

definition ex_legacy :: Facilitator where
  "ex_legacy =
     \<lparr>fac_id = ''fac_0'', fac_name = ''Old'',
      encryptedPrivateKey = ''enc-user'', systemEncryptedKey = ''enc-system'',
      facilitatorWallet = ''0x1111111111111111111111111111111111111111'',
      paymentRecipient = ''0x2222222222222222222222222222222222222222'',
      createdBy = ''0x3333333333333333333333333333333333333333'',
      createdAt = 1600000000000, lastUsed = 1600000000000, totalPayments = 3,
      fac_status = needs_funding, registrationTxHash = ''0xreg'',
      fac_network = None, fac_chainId = None\<rparr>"

definition ex_world :: world where
  "ex_world =
     \<lparr>kv = [''facilitator:fac_1'' \<mapsto> ex_facilitator, ''facilitator:fac_0'' \<mapsto> ex_legacy],
      active_ids = {''fac_1'', ''fac_0''},
      redis_writes = [], ledger = [], events = [], clock = 1800000000000\<rparr>"

definition ex_chain :: "(transfer_call \<times> leg_outcome) list \<Rightarrow> transfer_call \<Rightarrow> leg_outcome" where
  "ex_chain led call =
     (if call_nonce call \<in> set (map (\<lambda>p. call_nonce (fst p)) (filter (\<lambda>p. is_confirmed (snd p)) led))
      then SubmitFailed ''authorization is used or canceled''
      else Confirmed (''0xtx'' @ call_nonce call) (Some \<lparr>gasUsed = 50000, gasPrice = Some 2\<rparr>))"

definition ex_runtime :: "nat \<Rightarrow> runtime" where
  "ex_runtime balance =
     \<lparr>rt_env = [''SYSTEM_MASTER_KEY'' \<mapsto> ''master''],
      decryptPrivateKey = (\<lambda>c k. if k = ''master'' then Inr (''key:'' @ c) else Inl (Error ''bad decrypt'')),
      walletAddress = (\<lambda>k. Inr ''0x1111111111111111111111111111111111111111''),
      getBalance = (\<lambda>rpc a. Inr balance),
      chain_answer = ex_chain\<rparr>"

definition ex_parseUnits :: "string \<Rightarrow> nat \<Rightarrow> error + int" where
  "ex_parseUnits s d = (if s = ''2.50'' \<and> d = 6 then Inr 2500000 else Inl (Error ''invalid decimal number''))"

definition ex_auth :: "string \<Rightarrow> string \<Rightarrow> SignedAuthorizationJSON" where
  "ex_auth nonce amount =
     \<lparr>sj_signature = ''0x'' @ replicate 64 (CHR ''a'') @ replicate 64 (CHR ''b'') @ ''1b'',
      sj_authorization =
        \<lparr>j_from = ''0x4444444444444444444444444444444444444444'',
         j_to = ''0x2222222222222222222222222222222222222222'',
         j_value = amount, j_validAfter = ''1799999940'', j_validBefore = ''1800000300'',
         j_nonce = nonce\<rparr>\<rparr>"

definition ex_batch_body :: "SignedAuthorizationJSON list \<Rightarrow> batch_body" where
  "ex_batch_body auths =
     \<lparr>bb_facilitatorId = Some ''fac_1'', bb_network = Some ''avalanche-fuji'',
      bb_authorizations = Some auths\<rparr>"

definition ex_custom_body :: "string \<Rightarrow> payload_domain option \<Rightarrow> custom_body" where
  "ex_custom_body nonce payloadDomain =
     \<lparr>sb_facilitatorId = Some ''fac_1'',
      sb_paymentPayload =
        Some \<lparr>pp_signature = sj_signature (ex_auth nonce ''2500000''),
              pp_authorization = sj_authorization (ex_auth nonce ''2500000''),
              pp_domain = payloadDomain\<rparr>,
      sb_network = Some ''avalanche-fuji'', sb_chainId = Some 43113,
      sb_usdcAddress = None, sb_contractAddress = None, sb_verifyingContract = None\<rparr>"

text \<open>
  A batch of three authorizations in which the second replays the nonce of the first.
\<close>

definition ex_A :: SignedAuthorizationJSON where "ex_A = ex_auth ''0xn1'' ''199000''"
definition ex_B :: SignedAuthorizationJSON where "ex_B = ex_auth ''0xn1'' ''1000''"
definition ex_C :: SignedAuthorizationJSON where "ex_C = ex_auth ''0xn3'' ''5''"

definition ex_wallet :: string where
  "ex_wallet = ''0x1111111111111111111111111111111111111111''"

definition ex_nc :: NetworkConfig where
  "ex_nc = cfg_avalanche_fuji [''SYSTEM_MASTER_KEY'' \<mapsto> ''master'']"

text \<open>
  A state in which the first authorization of the batch is already confirmed on the chain,
  a payload whose signing domain names another contract, and the USDC contract entry of
  Avalanche Fuji.
\<close>

definition ex_world_used :: world where
  "ex_world_used =
     ex_world\<lparr>ledger := [(batch_call ex_nc ex_wallet ex_A,
                           Confirmed ''0xtx0xn1'' (Some \<lparr>gasUsed = 50000, gasPrice = Some 2\<rparr>))]\<rparr>"

definition ex_domain :: payload_domain where
  "ex_domain = \<lparr>pd_verifyingContract = Some ''0xAAAAAAAAAAAAAAAAAAAAAAAAAAAAAAAAAAAAAAAA''\<rparr>"

definition ex_uc :: UsdcContract where
  "ex_uc = \<lparr>uc_address = ''0x5425890298aed601595a70AB815c96711a31Bc65'', uc_decimals = 6,
            uc_symbol = ''USDC'', uc_name = ''USD Coin''\<rparr>"

definition ex_payload :: "string \<Rightarrow> payload_domain option \<Rightarrow> payment_payload" where
  "ex_payload nonce payloadDomain =
     \<lparr>pp_signature = sj_signature (ex_auth nonce ''2500000''),
      pp_authorization = sj_authorization (ex_auth nonce ''2500000''),
      pp_domain = payloadDomain\<rparr>"

section \<open>Registry self-consistency\<close>

lemma NETWORK_CONFIGS_cases:
  assumes "map_of (NETWORK_CONFIGS e) n = Some cfg"
  shows "cfg = cfg_avalanche_fuji e \<or> cfg = cfg_ethereum_sepolia e \<or> cfg = cfg_base_sepolia e
    \<or> cfg = cfg_polygon_amoy e \<or> cfg = cfg_arbitrum_sepolia e \<or> cfg = cfg_monad_testnet e"
  using assms by (auto simp: NETWORK_CONFIGS_def split: if_splits)

text \<open>
  C2. For every network registered in the configuration table, and for every assignment of
  the environment variables, the ERC-3009 signing domain carries the chain id of the
  network's chain object and the network's configured USDC address as verifying contract.
\<close>

theorem registry_self_consistent:
  assumes "map_of (NETWORK_CONFIGS e) n = Some cfg"
  shows "chainId (erc3009Domain cfg) = chain_id (chain cfg)
       \<and> verifyingContract (erc3009Domain cfg) = usdcAddress cfg"
proof -
  have fuji: "chainId (erc3009Domain (cfg_avalanche_fuji e)) = chain_id (chain (cfg_avalanche_fuji e))
      \<and> verifyingContract (erc3009Domain (cfg_avalanche_fuji e)) = usdcAddress (cfg_avalanche_fuji e)"
    by (simp add: cfg_avalanche_fuji_def avalancheFuji_def)
  have sep: "chainId (erc3009Domain (cfg_ethereum_sepolia e)) = chain_id (chain (cfg_ethereum_sepolia e))
      \<and> verifyingContract (erc3009Domain (cfg_ethereum_sepolia e)) = usdcAddress (cfg_ethereum_sepolia e)"
    by (simp add: cfg_ethereum_sepolia_def sepolia_def)
  have base: "chainId (erc3009Domain (cfg_base_sepolia e)) = chain_id (chain (cfg_base_sepolia e))
      \<and> verifyingContract (erc3009Domain (cfg_base_sepolia e)) = usdcAddress (cfg_base_sepolia e)"
    by (simp add: cfg_base_sepolia_def baseSepolia_def)
  have amoy: "chainId (erc3009Domain (cfg_polygon_amoy e)) = chain_id (chain (cfg_polygon_amoy e))
      \<and> verifyingContract (erc3009Domain (cfg_polygon_amoy e)) = usdcAddress (cfg_polygon_amoy e)"
    by (simp add: cfg_polygon_amoy_def polygonAmoy_def)
  have arb: "chainId (erc3009Domain (cfg_arbitrum_sepolia e)) = chain_id (chain (cfg_arbitrum_sepolia e))
      \<and> verifyingContract (erc3009Domain (cfg_arbitrum_sepolia e)) = usdcAddress (cfg_arbitrum_sepolia e)"
    by (simp add: cfg_arbitrum_sepolia_def arbitrumSepoliaChain_def)
  have monad: "chainId (erc3009Domain (cfg_monad_testnet e)) = chain_id (chain (cfg_monad_testnet e))
      \<and> verifyingContract (erc3009Domain (cfg_monad_testnet e)) = usdcAddress (cfg_monad_testnet e)"
    by (simp add: cfg_monad_testnet_def monadTestnet_def)
  from NETWORK_CONFIGS_cases [OF assms] fuji sep base amoy arb monad show ?thesis
    by blast
qed

theorem registry_self_consistent_witness:
  "map_of (NETWORK_CONFIGS [''NEXT_PUBLIC_USDC_ADDRESS_BASE_SEPOLIA'' \<mapsto> ''0x00000000000000000000000000000000000000AA''])
      ''base-sepolia''
     = Some (cfg_base_sepolia [''NEXT_PUBLIC_USDC_ADDRESS_BASE_SEPOLIA'' \<mapsto> ''0x00000000000000000000000000000000000000AA''])
   \<and> chainId (erc3009Domain (cfg_base_sepolia [''NEXT_PUBLIC_USDC_ADDRESS_BASE_SEPOLIA'' \<mapsto> ''0x00000000000000000000000000000000000000AA''])) = 84532
   \<and> verifyingContract (erc3009Domain (cfg_base_sepolia [''NEXT_PUBLIC_USDC_ADDRESS_BASE_SEPOLIA'' \<mapsto> ''0x00000000000000000000000000000000000000AA'']))
       = ''0x00000000000000000000000000000000000000AA''
   \<and> usdcAddress (cfg_base_sepolia [''NEXT_PUBLIC_USDC_ADDRESS_BASE_SEPOLIA'' \<mapsto> ''0x00000000000000000000000000000000000000AA''])
       = ''0x00000000000000000000000000000000000000AA''"
proof -
  let ?e = "[''NEXT_PUBLIC_USDC_ADDRESS_BASE_SEPOLIA'' \<mapsto> ''0x00000000000000000000000000000000000000AA'']"
  have h: "map_of (NETWORK_CONFIGS ?e) ''base-sepolia'' = Some (cfg_base_sepolia ?e)"
    by (simp add: NETWORK_CONFIGS_def)
  have u: "usdcAddress (cfg_base_sepolia ?e) = ''0x00000000000000000000000000000000000000AA''"
    by (simp add: cfg_base_sepolia_def env_or_def)
  have c: "chain_id (chain (cfg_base_sepolia ?e)) = 84532"
    by (simp add: cfg_base_sepolia_def baseSepolia_def)
  from registry_self_consistent [OF h] h u c show ?thesis
    by simp
qed

section \<open>Round trip through the decimal strings\<close>

lemma digit_cases:
  assumes "d < (10::nat)"
  shows "d = 0 \<or> d = 1 \<or> d = 2 \<or> d = 3 \<or> d = 4 \<or> d = 5 \<or> d = 6 \<or> d = 7 \<or> d = 8 \<or> d = 9"
  using assms by arith

lemma digit_value_digit_char: "d < 10 \<Longrightarrow> digit_value (digit_char d) = Some d"
  by (drule digit_cases) (auto simp: digit_char_def digit_value_def)

lemma digit_char_not_sign:
  "d < 10 \<Longrightarrow> digit_char d \<noteq> CHR ''-'' \<and> digit_char d \<noteq> CHR ''+''"
  by (drule digit_cases) (auto simp: digit_char_def)

lemma parse_digits_append:
  "parse_digits (xs @ ys) acc =
     (case parse_digits xs acc of None \<Rightarrow> None | Some a \<Rightarrow> parse_digits ys a)"
  by (induction xs arbitrary: acc) (auto split: option.splits)

lemma parse_digits_decimal_digits: "parse_digits (decimal_digits n) 0 = Some n"
proof (induction n rule: decimal_digits.induct)
  case (1 n)
  show ?case
  proof (cases "n < 10")
    case True
    then show ?thesis
      by (simp add: decimal_digits.simps [of n] digit_value_digit_char)
  next
    case False
    with 1 have ih: "parse_digits (decimal_digits (n div 10)) 0 = Some (n div 10)"
      by simp
    have "n mod 10 < 10" by simp
    then have dv: "digit_value (digit_char (n mod 10)) = Some (n mod 10)"
      by (rule digit_value_digit_char)
    from False ih dv show ?thesis
      by (simp add: decimal_digits.simps [of n] parse_digits_append)
  qed
qed

lemma decimal_digits_first:
  "\<exists>c cs. decimal_digits n = c # cs \<and> c \<noteq> CHR ''-'' \<and> c \<noteq> CHR ''+''"
proof (induction n rule: decimal_digits.induct)
  case (1 n)
  show ?case
  proof (cases "n < 10")
    case True
    then show ?thesis
      using digit_char_not_sign [of n] by (simp add: decimal_digits.simps [of n])
  next
    case False
    with 1 obtain c cs where "decimal_digits (n div 10) = c # cs"
      and "c \<noteq> CHR ''-''" and "c \<noteq> CHR ''+''"
      by auto
    with False show ?thesis
      by (simp add: decimal_digits.simps [of n])
  qed
qed

lemma parse_bigint_toString: "parse_bigint (bigint_toString i) = Some i"
proof (cases "i < 0")
  case True
  obtain c cs where "decimal_digits (nat (- i)) = c # cs"
    using decimal_digits_first by blast
  then have ne: "decimal_digits (nat (- i)) \<noteq> []" by simp
  from True ne show ?thesis
    by (simp add: parse_bigint_def bigint_toString_def parse_digits_decimal_digits)
next
  case False
  obtain c cs where d: "decimal_digits (nat i) = c # cs"
    and c: "c \<noteq> CHR ''-''" "c \<noteq> CHR ''+''"
    using decimal_digits_first by blast
  have "parse_digits (c # cs) 0 = Some (nat i)"
    using parse_digits_decimal_digits [of "nat i"] d by simp
  with False d c show ?thesis
    by (simp add: parse_bigint_def bigint_toString_def del: parse_digits.simps)
qed

text \<open>
  C8. Serializing a signed authorization to its wire form and reading the decimal strings
  back as integers gives the signed authorization again: value, validAfter and validBefore
  exactly, and from, to, nonce and signature unchanged.
\<close>

theorem wire_form_roundtrip:
  "signedAuthorizationFromJSON (signedAuthorizationToJSON sa) = Some sa"
  by (simp add: signedAuthorizationFromJSON_def signedAuthorizationToJSON_def
      parse_bigint_toString)

section \<open>Validity window of a new authorization\<close>

lemma NETWORK_CONFIGS_decimals:
  assumes "map_of (NETWORK_CONFIGS e) n = Some cfg"
  shows "usdcDecimals cfg = 6"
proof -
  have "usdcDecimals (cfg_avalanche_fuji e) = 6" "usdcDecimals (cfg_ethereum_sepolia e) = 6"
    "usdcDecimals (cfg_base_sepolia e) = 6" "usdcDecimals (cfg_polygon_amoy e) = 6"
    "usdcDecimals (cfg_arbitrum_sepolia e) = 6" "usdcDecimals (cfg_monad_testnet e) = 6"
    by (simp_all add: cfg_avalanche_fuji_def cfg_ethereum_sepolia_def cfg_base_sepolia_def
        cfg_polygon_amoy_def cfg_arbitrum_sepolia_def cfg_monad_testnet_def)
  with NETWORK_CONFIGS_cases [OF assms] show ?thesis
    by auto
qed

lemma isNetworkSupported_lookup:
  assumes "isNetworkSupported e n"
  shows "\<exists>cfg. map_of (NETWORK_CONFIGS e) n = Some cfg"
proof -
  from assms have "n \<in> fst ` set (NETWORK_CONFIGS e)"
    by (simp add: isNetworkSupported_def)
  then have "map_of (NETWORK_CONFIGS e) n \<noteq> None"
    by (simp add: map_of_eq_None_iff)
  then show ?thesis by auto
qed

lemma isNetworkSupported_nonempty: "isNetworkSupported e n \<Longrightarrow> n \<noteq> []"
  by (auto simp: isNetworkSupported_def NETWORK_CONFIGS_def)

lemma getX402Config_supported:
  assumes "isNetworkSupported e n"
  shows "\<exists>cfg. getX402Config e (Some n) = Inr cfg \<and> USDC_DECIMALS cfg = 6
           \<and> TIMEOUT_SECONDS cfg = 300 \<and> NETWORK cfg = n"
proof -
  from isNetworkSupported_lookup [OF assms] obtain nc
    where nc: "map_of (NETWORK_CONFIGS e) n = Some nc" by blast
  have ne: "n \<noteq> []" using assms by (rule isNetworkSupported_nonempty)
  from nc ne NETWORK_CONFIGS_decimals [OF nc] show ?thesis
    by (simp add: getX402Config_def getNetworkConfig_def str_or_def)
qed

text \<open>
  C7. A call of createTransferAuthorization with a supported network and an amount that
  parses (at the 6 decimals every registered network has) returns an authorization whose
  window validBefore - validAfter is the configured TIMEOUT_SECONDS (300) plus the fixed
  60 seconds, whatever the clock, the random nonce and the environment are; its from, to
  and value fields are fixed by the arguments alone.
\<close>

theorem createTransferAuthorization_window:
  assumes "isNetworkSupported e n" and "parseUnits amountUSDC 6 = Inr v"
  shows "\<exists>a cfg. createTransferAuthorization parseUnits e now_ms nonce from to amountUSDC (Some n)
              = Inr a
           \<and> getX402Config e (Some n) = Inr cfg
           \<and> a_validBefore a - a_validAfter a = TIMEOUT_SECONDS cfg + 60
           \<and> TIMEOUT_SECONDS cfg = 300
           \<and> a_from a = from \<and> a_to a = to \<and> a_value a = v"
proof -
  from getX402Config_supported [OF assms(1)] obtain cfg
    where cfg: "getX402Config e (Some n) = Inr cfg" "USDC_DECIMALS cfg = 6"
      "TIMEOUT_SECONDS cfg = 300"
    by blast
  with assms(2) show ?thesis
    by (simp add: createTransferAuthorization_def Let_def)
qed

theorem createTransferAuthorization_window_witness:
  "isNetworkSupported Map.empty ''base-sepolia'' \<and> ex_parseUnits ''2.50'' 6 = Inr 2500000
   \<and> (\<exists>a cfg. createTransferAuthorization ex_parseUnits Map.empty 1800000000123 ''0x01''
                ''0xA'' ''0xB'' ''2.50'' (Some ''base-sepolia'') = Inr a
          \<and> getX402Config Map.empty (Some ''base-sepolia'') = Inr cfg
          \<and> a_validBefore a - a_validAfter a = TIMEOUT_SECONDS cfg + 60
          \<and> TIMEOUT_SECONDS cfg = 300
          \<and> a_from a = ''0xA'' \<and> a_to a = ''0xB'' \<and> a_value a = 2500000)"
proof -
  have s: "isNetworkSupported Map.empty ''base-sepolia''"
    by (simp add: isNetworkSupported_def NETWORK_CONFIGS_def)
  have p: "ex_parseUnits ''2.50'' 6 = Inr 2500000"
    by (simp add: ex_parseUnits_def)
  from createTransferAuthorization_window
         [where parseUnits = ex_parseUnits and amountUSDC = "''2.50''", OF s p] s p
  show ?thesis
    by blast
qed

section \<open>Reading a stored facilitator\<close>

lemma getFacilitator_cases:
  assumes "getFacilitator ident w = (r, w1)"
  shows "(kv w (REDIS_KEY_PREFIX @ ident) = None \<and> r = None \<and> w1 = w)
       \<or> (\<exists>f0. kv w (REDIS_KEY_PREFIX @ ident) = Some f0
             \<and> \<not> (falsy_str (fac_network f0) \<or> falsy_num (fac_chainId f0))
             \<and> r = Some f0 \<and> w1 = w)
       \<or> (\<exists>f0. kv w (REDIS_KEY_PREFIX @ ident) = Some f0
             \<and> (falsy_str (fac_network f0) \<or> falsy_num (fac_chainId f0))
             \<and> r = Some (f0\<lparr>fac_network := Some ''avalanche-fuji'', fac_chainId := Some 43113\<rparr>)
             \<and> w1 = redis_set (REDIS_KEY_PREFIX @ ident)
                      (f0\<lparr>fac_network := Some ''avalanche-fuji'', fac_chainId := Some 43113\<rparr>) w)"
  using assms by (auto simp: getFacilitator_def Let_def split: option.splits if_splits)

lemma getFacilitator_again:
  assumes "getFacilitator ident w = (Some f, w1)"
  shows "getFacilitator ident w1 = (Some f, w1)"
  using getFacilitator_cases [OF assms]
  by (auto simp: getFacilitator_def Let_def redis_set_def falsy_str_def falsy_num_def)

lemma getFacilitator_stored:
  assumes "getFacilitator ident w = (Some f, w1)"
  shows "kv w1 (REDIS_KEY_PREFIX @ ident) = Some f"
  using getFacilitator_cases [OF assms] by (auto simp: redis_set_def)

text \<open>
  C6. A stored record without a network or without a chain id (or with an empty network or
  a zero chain id, which the test treats alike) is returned by the first read with the
  network avalanche-fuji and the chain id 43113, and that record is written back under its
  key by one SET; a second read returns the same record and leaves Redis, the log of write
  commands included, as it is.
\<close>

theorem getFacilitator_migrates_once:
  assumes "kv w (REDIS_KEY_PREFIX @ ident) = Some f"
    and "falsy_str (fac_network f) \<or> falsy_num (fac_chainId f)"
  shows "\<exists>f' w'. getFacilitator ident w = (Some f', w')
           \<and> f' = f\<lparr>fac_network := Some ''avalanche-fuji'', fac_chainId := Some 43113\<rparr>
           \<and> kv w' (REDIS_KEY_PREFIX @ ident) = Some f'
           \<and> redis_writes w' = redis_writes w @ [RedisSet (REDIS_KEY_PREFIX @ ident) f']
           \<and> getFacilitator ident w' = (Some f', w')"
proof -
  let ?f' = "f\<lparr>fac_network := Some ''avalanche-fuji'', fac_chainId := Some 43113\<rparr>"
  let ?w' = "redis_set (REDIS_KEY_PREFIX @ ident) ?f' w"
  have first: "getFacilitator ident w = (Some ?f', ?w')"
    using assms by (simp add: getFacilitator_def Let_def)
  have again: "getFacilitator ident ?w' = (Some ?f', ?w')"
    using first by (rule getFacilitator_again)
  have "kv ?w' (REDIS_KEY_PREFIX @ ident) = Some ?f'"
    and "redis_writes ?w' = redis_writes w @ [RedisSet (REDIS_KEY_PREFIX @ ident) ?f']"
    by (simp_all add: redis_set_def)
  with first again show ?thesis by blast
qed

theorem getFacilitator_migrates_once_witness:
  "kv ex_world (REDIS_KEY_PREFIX @ ''fac_0'') = Some ex_legacy
   \<and> (falsy_str (fac_network ex_legacy) \<or> falsy_num (fac_chainId ex_legacy))
   \<and> (\<exists>f' w'. getFacilitator ''fac_0'' ex_world = (Some f', w')
          \<and> f' = ex_legacy\<lparr>fac_network := Some ''avalanche-fuji'', fac_chainId := Some 43113\<rparr>
          \<and> kv w' (REDIS_KEY_PREFIX @ ''fac_0'') = Some f'
          \<and> redis_writes w' = redis_writes ex_world @ [RedisSet (REDIS_KEY_PREFIX @ ''fac_0'') f']
          \<and> getFacilitator ''fac_0'' w' = (Some f', w'))"
proof -
  have k: "kv ex_world (REDIS_KEY_PREFIX @ ''fac_0'') = Some ex_legacy"
    by (simp add: ex_world_def REDIS_KEY_PREFIX_def)
  have m: "falsy_str (fac_network ex_legacy) \<or> falsy_num (fac_chainId ex_legacy)"
    by (simp add: ex_legacy_def falsy_str_def)
  from getFacilitator_migrates_once [OF k m] k m show ?thesis
    by blast
qed

section \<open>Rounding to a Number\<close>

lemma round_half_even_error: "\<bar>of_int (round_half_even x) - x\<bar> \<le> 1 / 2"
proof -
  have "of_int \<lfloor>x\<rfloor> \<le> x" "x < of_int \<lfloor>x\<rfloor> + 1" by linarith+
  then show ?thesis
    by (auto simp: round_half_even_def Let_def)
qed

lemma binary_exponent_le:
  assumes "0 < q"
  shows "2 powi (binary_exponent q) \<le> q"
proof -
  obtain n d where nd: "quotient_of q = (n, d)" by (cases "quotient_of q")
  have d: "0 < d" using nd by (rule quotient_of_denom_pos)
  have q: "q = of_int n / of_int d" using nd by (rule quotient_of_div)
  have n: "0 < n" using assms d q by (simp add: zero_less_divide_iff)
  define a where "a = floorlog 2 (nat n)"
  define b where "b = floorlog 2 (nat d)"
  have a1: "2 ^ (a - 1) \<le> nat n" and b1: "nat d < 2 ^ b"
    using floorlog_bounds [of "nat n" 2] floorlog_bounds [of "nat d" 2] n d
    by (simp_all add: a_def b_def)
  have apos: "0 < a" using n by (simp add: a_def floorlog_def)
  have "(2::rat) ^ (a - 1) \<le> of_nat (nat n)"
    using a1 by (metis of_nat_le_iff of_nat_numeral of_nat_power)
  then have an: "(2::rat) ^ (a - 1) \<le> of_int n" using n by simp
  have "(of_nat (nat d) :: rat) < 2 ^ b"
    using b1 by (metis of_nat_less_iff of_nat_numeral of_nat_power)
  then have bd: "(of_int d :: rat) < 2 ^ b" using d by simp
  obtain a' where a': "a = Suc a'" using apos by (cases a) auto
  have "(2::rat) powi (int a - int b - 1) = 2 powi (int a' - int b)"
    by (simp add: a')
  also have "\<dots> = 2 ^ (a - 1) / 2 ^ b"
    by (simp add: power_int_diff a')
  also have "\<dots> \<le> of_int n / of_int d"
    using an bd d n by (intro frac_le) simp_all
  finally have low: "(2::rat) powi (int a - int b - 1) \<le> q" using q by simp
  show ?thesis
    using low nd by (simp add: binary_exponent_def Let_def a_def b_def)
qed

lemma round_binary64_error:
  assumes "0 < q"
  shows "\<bar>round_binary64 q - q\<bar> \<le> q / 2 ^ 53"
proof -
  define e where "e = binary_exponent q"
  define x where "x = q * 2 powi (52 - e)"
  have le: "2 powi e \<le> q" unfolding e_def using assms by (rule binary_exponent_le)
  have r: "round_binary64 q = of_int (round_half_even x) * 2 powi (e - 52)"
    using assms by (simp add: round_binary64_def e_def x_def)
  have "x * 2 powi (e - 52) = q * (2 powi (52 - e) * 2 powi (e - 52))"
    by (simp add: x_def)
  also have "2 powi (52 - e) * 2 powi (e - 52) = (1::rat)"
    by (simp flip: power_int_add)
  finally have qx: "q = x * 2 powi (e - 52)" by simp
  have "round_binary64 q - q = (of_int (round_half_even x) - x) * 2 powi (e - 52)"
    using r qx by (simp add: algebra_simps)
  then have "\<bar>round_binary64 q - q\<bar> = \<bar>of_int (round_half_even x) - x\<bar> * 2 powi (e - 52)"
    by (simp add: abs_mult)
  also have "\<dots> \<le> (1 / 2) * 2 powi (e - 52)"
    by (intro mult_right_mono round_half_even_error) simp
  also have "\<dots> = 2 powi e / 2 ^ 53"
    by (simp add: power_int_diff)
  also have "\<dots> \<le> q / 2 ^ 53"
    using le by (simp add: divide_right_mono)
  finally show ?thesis .
qed

section \<open>The deactivation threshold\<close>

lemma round_binary64_upper: "0 < q \<Longrightarrow> round_binary64 q \<le> q + q / 2 ^ 53"
  using round_binary64_error [of q] by linarith

lemma round_binary64_lower: "0 < q \<Longrightarrow> q - q / 2 ^ 53 \<le> round_binary64 q"
  using round_binary64_error [of q] by linarith

lemma threshold_lower: "1 / 10000 - (1 / 10000) / 2 ^ 53 \<le> DEACTIVATION_THRESHOLD"
  unfolding DEACTIVATION_THRESHOLD_def by (rule round_binary64_lower) simp

lemma threshold_upper: "DEACTIVATION_THRESHOLD \<le> 1 / 10000 + (1 / 10000) / 2 ^ 53"
  unfolding DEACTIVATION_THRESHOLD_def by (rule round_binary64_upper) simp

lemma balance_at_threshold: "balanceInToken_of (10 ^ 14) = DEACTIVATION_THRESHOLD"
  by (simp add: balanceInToken_of_def DEACTIVATION_THRESHOLD_def)

lemma balance_not_above:
  assumes "b \<le> 10 ^ 14"
  shows "\<not> DEACTIVATION_THRESHOLD < balanceInToken_of b"
proof (cases "b = 10 ^ 14")
  case True
  with balance_at_threshold show ?thesis by simp
next
  case False
  with assms have "b + 1 \<le> 10 ^ 14" by simp
  then have "(of_nat (b + 1) :: rat) \<le> of_nat (10 ^ 14)" by (rule of_nat_mono)
  then have B: "(of_nat b :: rat) \<le> 10 ^ 14 - 1" by simp
  show ?thesis
  proof (cases "b = 0")
    case True
    then have "balanceInToken_of b = 0"
      by (simp add: balanceInToken_of_def round_binary64_def)
    with threshold_lower show ?thesis by simp
  next
    case False
    define q :: rat where "q = of_nat b / 10 ^ 18"
    have qpos: "0 < q" using False by (simp add: q_def)
    have qmax: "q \<le> (10 ^ 14 - 1) / 10 ^ 18"
      unfolding q_def using B by (simp add: divide_right_mono)
    have "round_binary64 q \<le> q + q / 2 ^ 53" using qpos by (rule round_binary64_upper)
    with qmax threshold_lower have "round_binary64 q \<le> DEACTIVATION_THRESHOLD"
      by simp
    then show ?thesis by (simp add: balanceInToken_of_def q_def)
  qed
qed

lemma balance_above:
  assumes "10 ^ 14 < b"
  shows "DEACTIVATION_THRESHOLD < balanceInToken_of b"
proof -
  from assms have "10 ^ 14 + 1 \<le> b" by simp
  then have "(of_nat (10 ^ 14 + 1) :: rat) \<le> of_nat b" by (rule of_nat_mono)
  then have B: "(10 ^ 14 + 1 :: rat) \<le> of_nat b" by simp
  define q :: rat where "q = of_nat b / 10 ^ 18"
  have qmin: "(10 ^ 14 + 1) / 10 ^ 18 \<le> q"
    unfolding q_def using B by (simp add: divide_right_mono)
  then have qpos: "0 < q" by simp
  have "q - q / 2 ^ 53 \<le> round_binary64 q" using qpos by (rule round_binary64_lower)
  with qmin threshold_upper have "DEACTIVATION_THRESHOLD < round_binary64 q"
    by simp
  then show ?thesis by (simp add: balanceInToken_of_def q_def)
qed

section \<open>Funding check\<close>

lemma status_of_balance:
  "(if DEACTIVATION_THRESHOLD < balanceInToken_of b then active else needs_funding)
     = (if 10 ^ 14 < b then active else needs_funding)"
  using balance_above [of b] balance_not_above [of b] by (cases "10 ^ 14 < b") simp_all

lemma updateFacilitatorStatus_after_read:
  assumes "getFacilitator ident w = (Some fac, w1)"
  shows "updateFacilitatorStatus ident st w1 = (None, storeFacilitator (fac\<lparr>fac_status := st\<rparr>) w1)"
  using getFacilitator_again [OF assms] by (simp add: updateFacilitatorStatus_def)

lemma kv_storeFacilitator:
  "kv (storeFacilitator f w) = (kv w)(REDIS_KEY_PREFIX @ fac_id f \<mapsto> f)"
  by (simp add: storeFacilitator_def redis_sadd_def redis_set_def Let_def)

lemma kv_logEvent: "kv (logEvent ev w) = kv w"
  by (simp add: logEvent_def)

lemma check_and_activate_run:
  assumes id: "ident \<noteq> []"
    and gf: "getFacilitator ident w = (Some fac, w1)"
    and nc: "getNetworkConfig (rt_env rt) (str_or (fac_network fac) ''avalanche-fuji'') = Inr nc"
    and bal: "getBalance rt (rpcUrl nc) (facilitatorWallet fac) = Inr b"
  shows "\<exists>r w'. check_and_activate_with recommended rt \<lparr>cb_facilitatorId = Some ident\<rparr> w
                  = (CheckOk r, w')
           \<and> cr_status r = (if 10 ^ 14 < b then active else needs_funding)
           \<and> (if fac_status fac = cr_status r then w' = w1
               else kv w' = (kv w1)(REDIS_KEY_PREFIX @ fac_id fac \<mapsto> fac\<lparr>fac_status := cr_status r\<rparr>))
           \<and> w' = snd (check_and_activate_with recommended' rt \<lparr>cb_facilitatorId = Some ident\<rparr> w)"
  using id gf nc bal status_of_balance [of b]
  by (auto simp: check_and_activate_with_def falsy_str_def Let_def
      updateFacilitatorStatus_after_read [OF gf] kv_storeFacilitator kv_logEvent)

text \<open>
  C3. A funding check of an existing facilitator whose network is registered and whose
  balance the RPC endpoint reports computes its status from the balance alone: active when
  the balance is above \<open>10^14\<close> wei (0.0001 of the native token), needs_funding when it
  is at or below. So a balance exactly at the threshold gives needs_funding and one wei
  more gives active. The table of recommended balances has no part in it: with any table
  in place of the source's the status and the resulting state are the same.
\<close>

theorem funding_status_two_threshold:
  assumes "ident \<noteq> []"
    and "getFacilitator ident w = (Some fac, w1)"
    and "getNetworkConfig (rt_env rt) (str_or (fac_network fac) ''avalanche-fuji'') = Inr nc"
    and "getBalance rt (rpcUrl nc) (facilitatorWallet fac) = Inr b"
  shows "\<exists>r w'. check_and_activate_with recommended rt \<lparr>cb_facilitatorId = Some ident\<rparr> w
                  = (CheckOk r, w')
           \<and> cr_status r = (if 10 ^ 14 < b then active else needs_funding)
           \<and> check_status (fst (check_and_activate_POST rt \<lparr>cb_facilitatorId = Some ident\<rparr> w))
               = Some (cr_status r)
           \<and> snd (check_and_activate_POST rt \<lparr>cb_facilitatorId = Some ident\<rparr> w) = w'"
proof -
  from check_and_activate_run [OF assms, of recommended RECOMMENDED_BALANCES]
  obtain r w' where r: "check_and_activate_with recommended rt \<lparr>cb_facilitatorId = Some ident\<rparr> w
        = (CheckOk r, w')"
    and st: "cr_status r = (if 10 ^ 14 < b then active else needs_funding)"
    and w': "w' = snd (check_and_activate_POST rt \<lparr>cb_facilitatorId = Some ident\<rparr> w)"
    unfolding check_and_activate_POST_def by blast
  from check_and_activate_run [OF assms, of RECOMMENDED_BALANCES RECOMMENDED_BALANCES]
  obtain r0 w0 where "check_and_activate_POST rt \<lparr>cb_facilitatorId = Some ident\<rparr> w = (CheckOk r0, w0)"
    and "cr_status r0 = (if 10 ^ 14 < b then active else needs_funding)"
    unfolding check_and_activate_POST_def by blast
  with r st w' show ?thesis
    by (simp add: check_status_def)
qed

lemma ex_read_fac_1: "getFacilitator ''fac_1'' ex_world = (Some ex_facilitator, ex_world)"
  by (simp add: getFacilitator_def ex_world_def REDIS_KEY_PREFIX_def ex_facilitator_def
      falsy_str_def falsy_num_def)

lemma ex_network_fac_1:
  "getNetworkConfig (rt_env (ex_runtime b)) (str_or (fac_network ex_facilitator) ''avalanche-fuji'')
     = Inr (cfg_avalanche_fuji (rt_env (ex_runtime b)))"
  by (simp add: getNetworkConfig_def NETWORK_CONFIGS_def ex_facilitator_def str_or_def)

lemma ex_balance: "getBalance (ex_runtime b) u a = Inr b"
  by (simp add: ex_runtime_def)

theorem funding_status_two_threshold_witness:
  "''fac_1'' \<noteq> []
   \<and> getFacilitator ''fac_1'' ex_world = (Some ex_facilitator, ex_world)
   \<and> check_status (fst (check_and_activate_POST (ex_runtime (10 ^ 14))
                           \<lparr>cb_facilitatorId = Some ''fac_1''\<rparr> ex_world)) = Some needs_funding
   \<and> check_status (fst (check_and_activate_POST (ex_runtime (10 ^ 14 + 1))
                           \<lparr>cb_facilitatorId = Some ''fac_1''\<rparr> ex_world)) = Some active"
proof -
  have i: "''fac_1'' \<noteq> []" by simp
  from funding_status_two_threshold [OF i ex_read_fac_1 ex_network_fac_1 ex_balance, where b = "10 ^ 14"
      and recommended = RECOMMENDED_BALANCES]
  have a: "check_status (fst (check_and_activate_POST (ex_runtime (10 ^ 14))
                           \<lparr>cb_facilitatorId = Some ''fac_1''\<rparr> ex_world)) = Some needs_funding"
    by auto
  from funding_status_two_threshold [OF i ex_read_fac_1 ex_network_fac_1 ex_balance, where b = "10 ^ 14 + 1"
      and recommended = RECOMMENDED_BALANCES]
  have b: "check_status (fst (check_and_activate_POST (ex_runtime (10 ^ 14 + 1))
                           \<lparr>cb_facilitatorId = Some ''fac_1''\<rparr> ex_world)) = Some active"
    by auto
  from i ex_read_fac_1 a b show ?thesis by blast
qed

lemma check_and_activate_world:
  assumes id: "ident \<noteq> []"
    and gf: "getFacilitator ident w = (Some fac, w1)"
    and run: "check_and_activate_with recommended rt \<lparr>cb_facilitatorId = Some ident\<rparr> w = (resp, w')"
  shows "w' = w1 \<or> (\<exists>r. resp = CheckOk r \<and> cr_status r \<noteq> fac_status fac
           \<and> kv w' = (kv w1)(REDIS_KEY_PREFIX @ fac_id fac \<mapsto> fac\<lparr>fac_status := cr_status r\<rparr>))"
proof (cases "getNetworkConfig (rt_env rt) (str_or (fac_network fac) ''avalanche-fuji'')")
  case (Inl err)
  with id gf run show ?thesis
    by (simp add: check_and_activate_with_def falsy_str_def Let_def)
next
  case (Inr nc)
  show ?thesis
  proof (cases "getBalance rt (rpcUrl nc) (facilitatorWallet fac)")
    case (Inl err)
    with id gf run Inr show ?thesis
      by (simp add: check_and_activate_with_def falsy_str_def Let_def)
  next
    case (Inr b)
    from check_and_activate_run [OF id gf \<open>getNetworkConfig _ _ = Inr nc\<close> Inr, of recommended recommended]
      run
    show ?thesis
      by (auto split: if_splits)
  qed
qed

text \<open>
  C9, amended. A funding check of an existing facilitator writes the status only when the
  computed status differs from the stored one, and then stores the record as read with the
  new status. Otherwise (equal status, or a failed check) it leaves the state as the read
  by getFacilitator left it: unchanged for a record that has its network and chain id, and
  with the one-time network and chain id fix-up for a record lacking them.
\<close>

theorem funding_check_write_only_on_change:
  assumes "ident \<noteq> []"
    and "kv w (REDIS_KEY_PREFIX @ ident) = Some f0"
    and "getFacilitator ident w = (Some fac, w1)"
    and "check_and_activate_POST rt \<lparr>cb_facilitatorId = Some ident\<rparr> w = (resp, w')"
  shows "(w' = w1 \<or> (\<exists>r. resp = CheckOk r \<and> cr_status r \<noteq> fac_status f0
            \<and> kv w' = (kv w1)(REDIS_KEY_PREFIX @ fac_id f0 \<mapsto> fac\<lparr>fac_status := cr_status r\<rparr>)))
       \<and> (w1 = w \<or> falsy_str (fac_network f0) \<or> falsy_num (fac_chainId f0))"
proof -
  from getFacilitator_cases [OF assms(3)] assms(2)
  have same: "fac_status fac = fac_status f0" "fac_id fac = fac_id f0"
    and mig: "w1 = w \<or> falsy_str (fac_network f0) \<or> falsy_num (fac_chainId f0)"
    by auto
  from check_and_activate_world [OF assms(1,3) assms(4) [unfolded check_and_activate_POST_def]] same mig
  show ?thesis by simp
qed

theorem funding_check_write_only_on_change_witness:
  "''fac_1'' \<noteq> []
   \<and> kv ex_world (REDIS_KEY_PREFIX @ ''fac_1'') = Some ex_facilitator
   \<and> getFacilitator ''fac_1'' ex_world = (Some ex_facilitator, ex_world)
   \<and> check_status (fst (check_and_activate_POST (ex_runtime (2 * 10 ^ 14))
                          \<lparr>cb_facilitatorId = Some ''fac_1''\<rparr> ex_world))
       = Some (fac_status ex_facilitator)
   \<and> snd (check_and_activate_POST (ex_runtime (2 * 10 ^ 14))
            \<lparr>cb_facilitatorId = Some ''fac_1''\<rparr> ex_world) = ex_world"
proof -
  let ?run = "check_and_activate_POST (ex_runtime (2 * 10 ^ 14)) \<lparr>cb_facilitatorId = Some ''fac_1''\<rparr> ex_world"
  have i: "''fac_1'' \<noteq> []" by simp
  have k: "kv ex_world (REDIS_KEY_PREFIX @ ''fac_1'') = Some ex_facilitator"
    by (simp add: ex_world_def REDIS_KEY_PREFIX_def)
  have p: "?run = (fst ?run, snd ?run)" by simp
  from check_and_activate_run [OF i ex_read_fac_1 ex_network_fac_1 ex_balance,
      where b = "2 * 10 ^ 14" and recommended = RECOMMENDED_BALANCES
        and recommended' = RECOMMENDED_BALANCES]
  have st: "check_status (fst ?run) = Some (fac_status ex_facilitator)"
    by (auto simp: check_and_activate_POST_def check_status_def ex_facilitator_def)
  from funding_check_write_only_on_change [OF i k ex_read_fac_1 p] st
  have "snd ?run = ex_world"
    by (auto simp: check_status_def)
  with i k ex_read_fac_1 st show ?thesis by blast
qed

text \<open>
  C9 as stated does not hold for a record without network and chain id: the read at the
  start of the check writes the migrated record although the computed status equals the
  stored one.
\<close>

theorem funding_check_writes_legacy_record:
  "kv ex_world ''facilitator:fac_0'' = Some ex_legacy
   \<and> check_status (fst (check_and_activate_POST (ex_runtime 0)
                          \<lparr>cb_facilitatorId = Some ''fac_0''\<rparr> ex_world))
       = Some (fac_status ex_legacy)
   \<and> kv (snd (check_and_activate_POST (ex_runtime 0)
                 \<lparr>cb_facilitatorId = Some ''fac_0''\<rparr> ex_world)) ''facilitator:fac_0''
       = Some (ex_legacy\<lparr>fac_network := Some ''avalanche-fuji'', fac_chainId := Some 43113\<rparr>)
   \<and> ex_legacy\<lparr>fac_network := Some ''avalanche-fuji'', fac_chainId := Some 43113\<rparr> \<noteq> ex_legacy
   \<and> redis_writes (snd (check_and_activate_POST (ex_runtime 0)
                 \<lparr>cb_facilitatorId = Some ''fac_0''\<rparr> ex_world))
       = [RedisSet ''facilitator:fac_0''
            (ex_legacy\<lparr>fac_network := Some ''avalanche-fuji'', fac_chainId := Some 43113\<rparr>)]"
proof -
  let ?m = "ex_legacy\<lparr>fac_network := Some ''avalanche-fuji'', fac_chainId := Some 43113\<rparr>"
  let ?w1 = "redis_set ''facilitator:fac_0'' ?m ex_world"
  let ?run = "check_and_activate_POST (ex_runtime 0) \<lparr>cb_facilitatorId = Some ''fac_0''\<rparr> ex_world"
  have i: "''fac_0'' \<noteq> []" by simp
  have k: "kv ex_world ''facilitator:fac_0'' = Some ex_legacy"
    by (simp add: ex_world_def)
  have fl: "falsy_str (fac_network ex_legacy)"
    by (simp add: ex_legacy_def falsy_str_def)
  have gf: "getFacilitator ''fac_0'' ex_world = (Some ?m, ?w1)"
    using k fl by (simp add: getFacilitator_def REDIS_KEY_PREFIX_def Let_def)
  have nc: "getNetworkConfig (rt_env (ex_runtime 0)) (str_or (fac_network ?m) ''avalanche-fuji'')
     = Inr (cfg_avalanche_fuji (rt_env (ex_runtime 0)))"
    by (simp add: getNetworkConfig_def NETWORK_CONFIGS_def str_or_def)
  from check_and_activate_run [OF i gf nc ex_balance, where recommended = RECOMMENDED_BALANCES
      and recommended' = RECOMMENDED_BALANCES]
  have st: "check_status (fst ?run) = Some needs_funding" and w: "snd ?run = ?w1"
    by (auto simp: check_and_activate_POST_def check_status_def ex_legacy_def)
  have l: "fac_status ex_legacy = needs_funding" by (simp add: ex_legacy_def)
  have ne: "?m \<noteq> ex_legacy" by (simp add: ex_legacy_def)
  have kv1: "kv ?w1 ''facilitator:fac_0'' = Some ?m" by (simp add: redis_set_def)
  have rw: "redis_writes ?w1 = [RedisSet ''facilitator:fac_0'' ?m]"
    by (simp add: redis_set_def ex_world_def)
  from k st w l ne kv1 rw show ?thesis by simp
qed

section \<open>The batch loop\<close>

lemma logEvent_frame:
  "kv (logEvent ev w) = kv w" "ledger (logEvent ev w) = ledger w"
  "redis_writes (logEvent ev w) = redis_writes w" "clock (logEvent ev w) = clock w"
  "active_ids (logEvent ev w) = active_ids w"
  by (simp_all add: logEvent_def)

lemma execute_transfers_frame:
  assumes "execute_transfers rt fid fac nc wl auths hs g w = (res, w')"
  shows "kv w' = kv w \<and> redis_writes w' = redis_writes w \<and> clock w' = clock w
       \<and> active_ids w' = active_ids w"
  using assms
proof (induction auths arbitrary: hs g w)
  case Nil
  then show ?case by simp
next
  case (Cons a auths)
  show ?case
  proof (cases "chain_answer rt (ledger w) (batch_call nc wl a)")
    case (SubmitFailed msg)
    with Cons.prems show ?thesis by (auto simp: Let_def)
  next
    case (ConfirmFailed h msg)
    with Cons.prems show ?thesis by (auto simp: Let_def)
  next
    case (Confirmed h rc)
    show ?thesis
    proof (cases rc)
      case None
      with Confirmed Cons.prems Cons.IH [of "hs @ [h]" g "w\<lparr>ledger := ledger w @ [(batch_call nc wl a, Confirmed h None)]\<rparr>"]
      show ?thesis by (simp add: Let_def)
    next
      case (Some r)
      with Confirmed Cons.prems Cons.IH [of "hs @ [h]" "g + gasSpent_of r"]
      show ?thesis by (simp add: Let_def logEvent_frame)
    qed
  qed
qed

lemma execute_transfers_append:
  assumes "execute_transfers rt fid fac nc wl pre hs g w = (Inr (hs1, g1), wk)"
  shows "execute_transfers rt fid fac nc wl (pre @ rest) hs g w
           = execute_transfers rt fid fac nc wl rest hs1 g1 wk"
  using assms
proof (induction pre arbitrary: hs g w)
  case Nil
  then show ?case by simp
next
  case (Cons a pre)
  show ?case
  proof (cases "chain_answer rt (ledger w) (batch_call nc wl a)")
    case (SubmitFailed msg)
    with Cons.prems show ?thesis by (simp add: Let_def)
  next
    case (ConfirmFailed h msg)
    with Cons.prems show ?thesis by (simp add: Let_def)
  next
    case (Confirmed h rc)
    show ?thesis
    proof (cases rc)
      case None
      with Confirmed Cons.prems Cons.IH show ?thesis by (simp add: Let_def)
    next
      case (Some r)
      with Confirmed Cons.prems Cons.IH show ?thesis by (simp add: Let_def)
    qed
  qed
qed

lemma execute_transfers_failing_leg:
  assumes "chain_answer rt (ledger w) (batch_call nc wl a) = out" and "failed_leg out"
  shows "execute_transfers rt fid fac nc wl (a # post) hs g w
           = (Inl (Error (failure_message out)),
              w\<lparr>ledger := ledger w @ [(batch_call nc wl a, out)]\<rparr>)"
  using assms
  by (cases out) (simp_all add: Let_def failed_leg_def is_confirmed_def failure_message_def)

lemma execute_transfers_ledger:
  assumes "execute_transfers rt fid fac nc wl auths hs g w = (res, w')"
  shows "\<exists>new. ledger w' = ledger w @ new
           \<and> map fst new = map (batch_call nc wl) (take (length new) auths)
           \<and> (case res of
                 Inr (hs', g') \<Rightarrow> length new = length auths
                     \<and> list_all (\<lambda>p. is_confirmed (snd p)) new
                     \<and> hs' = hs @ map (\<lambda>p. outcome_hash (snd p)) new
               | Inl err \<Rightarrow> new \<noteq> []
                     \<and> list_all (\<lambda>p. is_confirmed (snd p)) (butlast new)
                     \<and> failed_leg (snd (last new))
                     \<and> err = Error (failure_message (snd (last new))))"
  using assms
proof (induction auths arbitrary: hs g w)
  case Nil
  then show ?case by auto
next
  case (Cons a auths)
  let ?c = "batch_call nc wl a"
  let ?out = "chain_answer rt (ledger w) ?c"
  show ?case
  proof (cases "failed_leg ?out")
    case True
    from execute_transfers_failing_leg [OF refl True, of fid fac auths hs g] Cons.prems
    have res: "res = Inl (Error (failure_message ?out))"
      and w': "w' = w\<lparr>ledger := ledger w @ [(?c, ?out)]\<rparr>"
      by simp_all
    show ?thesis
      by (rule exI [of _ "[(?c, ?out)]"]) (simp add: res w' True)
  next
    case False
    then obtain h rc where out: "?out = Confirmed h rc"
      by (cases ?out) (simp_all add: failed_leg_def is_confirmed_def)
    define w1 where "w1 = (case rc of None \<Rightarrow> w\<lparr>ledger := ledger w @ [(?c, ?out)]\<rparr>
        | Some r \<Rightarrow> logEvent (TransactionEvent fid (fac_name fac) h (chain_id (chain nc))
             (displayName nc) (j_from (sj_authorization a)) (j_to (sj_authorization a))
             (j_value (sj_authorization a)) (bigint_toString (int (gasSpent_of r))) ''success'')
            (w\<lparr>ledger := ledger w @ [(?c, ?out)]\<rparr>))"
    define g1 where "g1 = (case rc of None \<Rightarrow> g | Some r \<Rightarrow> g + gasSpent_of r)"
    have step: "execute_transfers rt fid fac nc wl (a # auths) hs g w
                  = execute_transfers rt fid fac nc wl auths (hs @ [h]) g1 w1"
      using out by (cases rc) (simp_all add: Let_def w1_def g1_def)
    have led: "ledger w1 = ledger w @ [(?c, ?out)]"
      by (cases rc) (simp_all add: w1_def logEvent_frame)
    from step Cons.prems have "execute_transfers rt fid fac nc wl auths (hs @ [h]) g1 w1 = (res, w')"
      by simp
    from Cons.IH [OF this] obtain new where new: "ledger w' = ledger w1 @ new"
      "map fst new = map (batch_call nc wl) (take (length new) auths)"
      "(case res of
          Inr (hs', g') \<Rightarrow> length new = length auths
              \<and> list_all (\<lambda>p. is_confirmed (snd p)) new
              \<and> hs' = (hs @ [h]) @ map (\<lambda>p. outcome_hash (snd p)) new
        | Inl err \<Rightarrow> new \<noteq> []
              \<and> list_all (\<lambda>p. is_confirmed (snd p)) (butlast new)
              \<and> failed_leg (snd (last new))
              \<and> err = Error (failure_message (snd (last new))))"
      by blast
    have conf: "is_confirmed ?out" "outcome_hash ?out = h"
      using out by (simp_all add: is_confirmed_def outcome_hash_def)
    show ?thesis
      apply (rule exI [of _ "(?c, ?out) # new"])
      using new led conf by (auto split: sum.splits)
  qed
qed

section \<open>Batch settlement handler\<close>

lemma getFacilitator_frame:
  assumes "getFacilitator ident w = (r, w1)"
  shows "ledger w1 = ledger w" "clock w1 = clock w" "events w1 = events w"
    "map_option totalPayments (kv w1 k) = map_option totalPayments (kv w k)"
    "map_option lastUsed (kv w1 k) = map_option lastUsed (kv w k)"
  using getFacilitator_cases [OF assms] by (auto simp: redis_set_def)

lemma getFacilitator_same_kv:
  assumes "getFacilitator ident w = (Some fac, w1)" and "kv w2 = kv w1"
  shows "getFacilitator ident w2 = (Some fac, w2)"
proof -
  from getFacilitator_cases [OF assms(1)]
  have k: "kv w1 (REDIS_KEY_PREFIX @ ident) = Some fac"
    and nf: "\<not> (falsy_str (fac_network fac) \<or> falsy_num (fac_chainId fac))"
    by (auto simp: redis_set_def falsy_str_def falsy_num_def)
  with assms(2) show ?thesis
    by (simp add: getFacilitator_def Let_def)
qed

lemma recordPayment_after_read:
  assumes "getFacilitator ident w = (Some fac, w1)" and "kv w2 = kv w1"
  shows "recordPayment ident w2
           = (None, storeFacilitator (fac\<lparr>totalPayments := totalPayments fac + 1,
                                          lastUsed := clock w2\<rparr>) w2)"
  using getFacilitator_same_kv [OF assms] by (simp add: recordPayment_def)

lemma storeFacilitator_frame:
  "ledger (storeFacilitator f w) = ledger w" "clock (storeFacilitator f w) = clock w"
  by (simp_all add: storeFacilitator_def redis_sadd_def redis_set_def Let_def)

lemma settle_batch_POST_run:
  assumes "batch_reaches_loop rt body w fid fac w1 nc wl auths"
  shows "settle_batch_POST rt body w =
           (case execute_transfers rt fid fac nc wl auths [] 0 w1 of
              (Inl err, w2) \<Rightarrow> (batch_failed err, w2)
            | (Inr (txHashes, totalGasSpent), w2) \<Rightarrow>
                (BatchSuccess
                   \<lparr>bs_txHashes = txHashes,
                    bs_txHash = (case txHashes of [] \<Rightarrow> None | h # _ \<Rightarrow> Some h),
                    bs_facilitatorWallet = wl, bs_facilitatorName = fac_name fac,
                    bs_transferCount = length txHashes,
                    bs_totalGasSpent = bigint_toString (int totalGasSpent),
                    bs_network = displayName nc\<rparr>,
                 storeFacilitator (fac\<lparr>totalPayments := totalPayments fac + 1,
                                       lastUsed := clock w2\<rparr>) w2))"
proof -
  obtain res w2 where ex: "execute_transfers rt fid fac nc wl auths [] 0 w1 = (res, w2)"
    by (cases "execute_transfers rt fid fac nc wl auths [] 0 w1")
  from assms have gf: "getFacilitator fid w = (Some fac, w1)"
    by (simp add: batch_reaches_loop_def)
  from execute_transfers_frame [OF ex] have "kv w2 = kv w1" by simp
  from recordPayment_after_read [OF gf this]
  have rp: "recordPayment fid w2
           = (None, storeFacilitator (fac\<lparr>totalPayments := totalPayments fac + 1,
                                          lastUsed := clock w2\<rparr>) w2)" .
  from assms ex rp show ?thesis
    by (auto simp: batch_reaches_loop_def settle_batch_POST_def Let_def falsy_str_def
        split: sum.splits option.splits prod.splits)
qed

lemma settle_batch_POST_early:
  assumes "settle_batch_POST rt body w = (resp, w')"
  shows "(\<exists>fid fac w1 nc wl auths. batch_reaches_loop rt body w fid fac w1 nc wl auths)
       \<or> (batch_txHashes resp = None \<and> ledger w' = ledger w
           \<and> (w' = w \<or> w' = snd (getFacilitator (the (bb_facilitatorId body)) w)))"
  using assms
  by (auto simp: settle_batch_POST_def batch_reaches_loop_def Let_def batch_txHashes_def
      batch_failed_def falsy_str_def getFacilitator_frame
      split: if_splits option.splits prod.splits sum.splits)

text \<open>
  C1, amended. In a batch settlement whose legs before leg k all confirm and whose leg k
  fails at submission or at confirmation, the legs before k stay confirmed in the ledger
  (with the hashes the loop had collected), leg k is entered as failed and no later leg is
  submitted; the answer is the status 500 error carrying only the label and the message of
  leg k's failure, and the stored records are as the first read left them.
\<close>

theorem batch_stops_at_first_failure:
  assumes "batch_reaches_loop rt body w fid fac w1 nc wl (pre @ a # post)"
    and "execute_transfers rt fid fac nc wl pre [] 0 w1 = (Inr (hs, g), wk)"
    and "failed_leg (chain_answer rt (ledger wk) (batch_call nc wl a))"
  shows "settle_batch_POST rt body w
           = (BatchError 500 ''Batch settlement failed''
                (Some (message_or_unknown
                         (Error (failure_message (chain_answer rt (ledger wk) (batch_call nc wl a)))))),
              wk\<lparr>ledger := ledger wk
                     @ [(batch_call nc wl a, chain_answer rt (ledger wk) (batch_call nc wl a))]\<rparr>)
       \<and> map fst (new_legs w wk) = map (batch_call nc wl) pre
       \<and> list_all (\<lambda>p. is_confirmed (snd p)) (new_legs w wk)
       \<and> hs = map (\<lambda>p. outcome_hash (snd p)) (new_legs w wk)
       \<and> kv wk = kv w1"
proof -
  let ?out = "chain_answer rt (ledger wk) (batch_call nc wl a)"
  have loop: "execute_transfers rt fid fac nc wl (pre @ a # post) [] 0 w1
        = (Inl (Error (failure_message ?out)), wk\<lparr>ledger := ledger wk @ [(batch_call nc wl a, ?out)]\<rparr>)"
    using execute_transfers_append [OF assms(2), of "a # post"]
      execute_transfers_failing_leg [OF refl assms(3), of fid fac post hs g]
    by simp
  have post: "settle_batch_POST rt body w
           = (BatchError 500 ''Batch settlement failed''
                (Some (message_or_unknown (Error (failure_message ?out)))),
              wk\<lparr>ledger := ledger wk @ [(batch_call nc wl a, ?out)]\<rparr>)"
    using settle_batch_POST_run [OF assms(1)] loop by (simp add: batch_failed_def)
  from assms(1) have "getFacilitator fid w = (Some fac, w1)"
    by (simp add: batch_reaches_loop_def)
  then have l1: "ledger w1 = ledger w" by (rule getFacilitator_frame)
  from execute_transfers_ledger [OF assms(2)] obtain new where new: "ledger wk = ledger w1 @ new"
    "map fst new = map (batch_call nc wl) (take (length new) pre)"
    "length new = length pre" "list_all (\<lambda>p. is_confirmed (snd p)) new"
    "hs = map (\<lambda>p. outcome_hash (snd p)) new"
    by auto
  from new l1 have nl: "new_legs w wk = new" by (simp add: new_legs_def)
  from execute_transfers_frame [OF assms(2)] have "kv wk = kv w1" by simp
  with post nl new show ?thesis by simp
qed

lemma call_nonce_batch_call: "call_nonce (batch_call nc wl a) = j_nonce (sj_authorization a)"
  by (simp add: batch_call_def transfer_call_of_def Let_def)

lemma ex_ready_fac_1:
  assumes "auths \<noteq> []"
  shows "batch_reaches_loop (ex_runtime b) (ex_batch_body auths) ex_world ''fac_1'' ex_facilitator
           ex_world (cfg_avalanche_fuji (rt_env (ex_runtime b)))
           ''0x1111111111111111111111111111111111111111'' auths"
  using assms ex_read_fac_1
  by (simp add: batch_reaches_loop_def ex_batch_body_def falsy_str_def str_or_def
      getNetworkConfig_def NETWORK_CONFIGS_def)
    (simp add: ex_runtime_def ex_facilitator_def)

lemma ex_rt_env: "rt_env (ex_runtime b) = [''SYSTEM_MASTER_KEY'' \<mapsto> ''master'']"
  by (simp add: ex_runtime_def)

lemma ex_nonces:
  "j_nonce (sj_authorization ex_A) = ''0xn1''" "j_nonce (sj_authorization ex_B) = ''0xn1''"
  "j_nonce (sj_authorization ex_C) = ''0xn3''"
  by (simp_all add: ex_A_def ex_B_def ex_C_def ex_auth_def)

lemma ex_chain_answer: "chain_answer (ex_runtime b) = ex_chain"
  by (simp add: ex_runtime_def)

lemma ex_ready:
  assumes "auths \<noteq> []"
  shows "batch_reaches_loop (ex_runtime b) (ex_batch_body auths) ex_world ''fac_1'' ex_facilitator
           ex_world ex_nc ex_wallet auths"
  using ex_ready_fac_1 [OF assms, of b] by (simp add: ex_nc_def ex_wallet_def ex_rt_env)

lemma ex_leg_A:
  "fst (execute_transfers (ex_runtime b) ''fac_1'' ex_facilitator ex_nc ex_wallet [ex_A] [] 0 ex_world)
     = Inr ([''0xtx0xn1''], 100000)"
  "ledger (snd (execute_transfers (ex_runtime b) ''fac_1'' ex_facilitator ex_nc ex_wallet [ex_A] [] 0 ex_world))
     = [(batch_call ex_nc ex_wallet ex_A,
         Confirmed ''0xtx0xn1'' (Some \<lparr>gasUsed = 50000, gasPrice = Some 2\<rparr>))]"
  by (simp_all add: Let_def ex_chain_answer ex_chain_def call_nonce_batch_call ex_nonces
      gasSpent_of_def logEvent_frame ex_world_def)

lemma ex_leg_B_fails:
  "chain_answer (ex_runtime b)
     [(batch_call ex_nc ex_wallet ex_A,
       Confirmed ''0xtx0xn1'' (Some \<lparr>gasUsed = 50000, gasPrice = Some 2\<rparr>))]
     (batch_call ex_nc ex_wallet ex_B)
   = SubmitFailed ''authorization is used or canceled''"
  by (simp add: ex_chain_answer ex_chain_def call_nonce_batch_call ex_nonces is_confirmed_def)

theorem batch_stops_at_first_failure_witness:
  "batch_reaches_loop (ex_runtime 0) (ex_batch_body [ex_A, ex_B, ex_C]) ex_world ''fac_1''
     ex_facilitator ex_world ex_nc ex_wallet ([ex_A] @ ex_B # [ex_C])
   \<and> fst (execute_transfers (ex_runtime 0) ''fac_1'' ex_facilitator ex_nc ex_wallet [ex_A] [] 0 ex_world)
       = Inr ([''0xtx0xn1''], 100000)
   \<and> fst (settle_batch_POST (ex_runtime 0) (ex_batch_body [ex_A, ex_B, ex_C]) ex_world)
       = BatchError 500 ''Batch settlement failed'' (Some ''authorization is used or canceled'')
   \<and> ledger (snd (settle_batch_POST (ex_runtime 0) (ex_batch_body [ex_A, ex_B, ex_C]) ex_world))
       = [(batch_call ex_nc ex_wallet ex_A,
           Confirmed ''0xtx0xn1'' (Some \<lparr>gasUsed = 50000, gasPrice = Some 2\<rparr>)),
          (batch_call ex_nc ex_wallet ex_B, SubmitFailed ''authorization is used or canceled'')]"
proof -
  let ?run = "execute_transfers (ex_runtime 0) ''fac_1'' ex_facilitator ex_nc ex_wallet [ex_A] [] 0 ex_world"
  have r: "batch_reaches_loop (ex_runtime 0) (ex_batch_body [ex_A, ex_B, ex_C]) ex_world ''fac_1''
     ex_facilitator ex_world ex_nc ex_wallet ([ex_A] @ ex_B # [ex_C])"
    using ex_ready [of "[ex_A, ex_B, ex_C]" 0] by simp
  have p: "?run = (Inr ([''0xtx0xn1''], 100000), snd ?run)"
    using ex_leg_A(1) [of 0] by (simp add: prod_eq_iff del: execute_transfers.simps)
  have f: "failed_leg (chain_answer (ex_runtime 0) (ledger (snd ?run)) (batch_call ex_nc ex_wallet ex_B))"
    by (simp add: ex_leg_A(2) ex_leg_B_fails failed_leg_def is_confirmed_def
        del: execute_transfers.simps)
  from batch_stops_at_first_failure [OF r p f] r ex_leg_A [of 0] show ?thesis
    by (simp add: ex_leg_B_fails failure_message_def message_or_unknown_def
        del: execute_transfers.simps)
qed

lemma ex_batch_ABC:
  "fst (settle_batch_POST (ex_runtime 0) (ex_batch_body [ex_A, ex_B, ex_C]) ex_world)
     = BatchError 500 ''Batch settlement failed'' (Some ''authorization is used or canceled'')"
  "ledger (snd (settle_batch_POST (ex_runtime 0) (ex_batch_body [ex_A, ex_B, ex_C]) ex_world))
     = [(batch_call ex_nc ex_wallet ex_A,
           Confirmed ''0xtx0xn1'' (Some \<lparr>gasUsed = 50000, gasPrice = Some 2\<rparr>)),
          (batch_call ex_nc ex_wallet ex_B, SubmitFailed ''authorization is used or canceled'')]"
  "kv (snd (settle_batch_POST (ex_runtime 0) (ex_batch_body [ex_A, ex_B, ex_C]) ex_world))
     = kv ex_world"
proof -
  have r: "batch_reaches_loop (ex_runtime 0) (ex_batch_body [ex_A, ex_B, ex_C]) ex_world ''fac_1''
     ex_facilitator ex_world ex_nc ex_wallet [ex_A, ex_B, ex_C]"
    using ex_ready [of "[ex_A, ex_B, ex_C]" 0] by simp
  define wf where "wf = snd (execute_transfers (ex_runtime 0) ''fac_1'' ex_facilitator ex_nc
                ex_wallet [ex_A, ex_B, ex_C] [] 0 ex_world)"
  have loop: "execute_transfers (ex_runtime 0) ''fac_1'' ex_facilitator ex_nc ex_wallet
                [ex_A, ex_B, ex_C] [] 0 ex_world
     = (Inl (Error ''authorization is used or canceled''), wf)"
    unfolding wf_def
    by (simp add: Let_def ex_chain_answer ex_chain_def call_nonce_batch_call ex_nonces
      gasSpent_of_def logEvent_frame ex_world_def is_confirmed_def)
  have led: "ledger wf
     = [(batch_call ex_nc ex_wallet ex_A,
           Confirmed ''0xtx0xn1'' (Some \<lparr>gasUsed = 50000, gasPrice = Some 2\<rparr>)),
          (batch_call ex_nc ex_wallet ex_B, SubmitFailed ''authorization is used or canceled'')]"
    unfolding wf_def
    by (simp add: Let_def ex_chain_answer ex_chain_def call_nonce_batch_call ex_nonces
      gasSpent_of_def logEvent_frame ex_world_def is_confirmed_def)
  have kvf: "kv wf = kv ex_world"
    using execute_transfers_frame [OF loop] by simp
  have post: "settle_batch_POST (ex_runtime 0) (ex_batch_body [ex_A, ex_B, ex_C]) ex_world
     = (BatchError 500 ''Batch settlement failed'' (Some ''authorization is used or canceled''), wf)"
    using settle_batch_POST_run [OF r]
    by (simp add: loop batch_failed_def message_or_unknown_def del: execute_transfers.simps)
  from post show "fst (settle_batch_POST (ex_runtime 0) (ex_batch_body [ex_A, ex_B, ex_C]) ex_world)
     = BatchError 500 ''Batch settlement failed'' (Some ''authorization is used or canceled'')"
    by simp
  from post led show "ledger (snd (settle_batch_POST (ex_runtime 0) (ex_batch_body [ex_A, ex_B, ex_C]) ex_world))
     = [(batch_call ex_nc ex_wallet ex_A,
           Confirmed ''0xtx0xn1'' (Some \<lparr>gasUsed = 50000, gasPrice = Some 2\<rparr>)),
          (batch_call ex_nc ex_wallet ex_B, SubmitFailed ''authorization is used or canceled'')]"
    by simp
  from post kvf show "kv (snd (settle_batch_POST (ex_runtime 0) (ex_batch_body [ex_A, ex_B, ex_C]) ex_world))
     = kv ex_world"
    by simp
qed

text \<open>
  C1 as stated does not hold: when the second of three legs fails, the first is confirmed
  on the chain and the third is not submitted, but the answer is the status 500 error with
  a label and the failure's message; it has no list of the hashes confirmed so far.
\<close>

theorem batch_failure_answer_has_no_hashes:
  "batch_txHashes (fst (settle_batch_POST (ex_runtime 0) (ex_batch_body [ex_A, ex_B, ex_C]) ex_world))
     = None
   \<and> fst (settle_batch_POST (ex_runtime 0) (ex_batch_body [ex_A, ex_B, ex_C]) ex_world)
       = BatchError 500 ''Batch settlement failed'' (Some ''authorization is used or canceled'')
   \<and> map snd (ledger (snd (settle_batch_POST (ex_runtime 0) (ex_batch_body [ex_A, ex_B, ex_C]) ex_world)))
       = [Confirmed ''0xtx0xn1'' (Some \<lparr>gasUsed = 50000, gasPrice = Some 2\<rparr>),
          SubmitFailed ''authorization is used or canceled'']"
  by (simp add: ex_batch_ABC batch_txHashes_def)

text \<open>
  C10. A batch settlement that answers with success has confirmed every one of its n
  authorizations (n at least 1, the transfer count of the answer) and has raised the
  facilitator's totalPayments by exactly one, with lastUsed set to the clock: the counter
  counts batches. The facilitator's record is stored under its own id.
\<close>

theorem batch_success_counts_once:
  assumes "settle_batch_POST rt body w = (BatchSuccess s, w')"
    and "bb_facilitatorId body = Some ident"
    and "bb_authorizations body = Some auths"
    and "kv w (REDIS_KEY_PREFIX @ ident) = Some f0"
    and "fac_id f0 = ident"
  shows "\<exists>f'. kv w' (REDIS_KEY_PREFIX @ ident) = Some f'
           \<and> totalPayments f' = totalPayments f0 + 1
           \<and> lastUsed f' = clock w
           \<and> bs_transferCount s = length auths \<and> 1 \<le> length auths
           \<and> length (new_legs w w') = length auths
           \<and> list_all (\<lambda>p. is_confirmed (snd p)) (new_legs w w')"
proof -
  from settle_batch_POST_early [OF assms(1)]
  obtain fid fac w1 nc wl auths' where ready: "batch_reaches_loop rt body w fid fac w1 nc wl auths'"
    by (auto simp: batch_txHashes_def)
  with assms(2,3) have fid: "fid = ident" and au: "auths' = auths" and ne: "auths \<noteq> []"
    and gf: "getFacilitator ident w = (Some fac, w1)"
    by (auto simp: batch_reaches_loop_def)
  obtain res w2 where ex: "execute_transfers rt ident fac nc wl auths [] 0 w1 = (res, w2)"
    by (cases "execute_transfers rt ident fac nc wl auths [] 0 w1")
  from settle_batch_POST_run [OF ready] assms(1) ex fid au
  obtain hs g where res: "res = Inr (hs, g)"
    and s: "bs_transferCount s = length hs"
    and w': "w' = storeFacilitator (fac\<lparr>totalPayments := totalPayments fac + 1,
                                         lastUsed := clock w2\<rparr>) w2"
    by (cases res) (auto simp: batch_failed_def)
  from getFacilitator_cases [OF gf] assms(4,5)
  have fac: "fac_id fac = ident" "totalPayments fac = totalPayments f0"
    by auto
  from getFacilitator_frame [OF gf] have l1: "ledger w1 = ledger w" "clock w1 = clock w"
    by simp_all
  from execute_transfers_frame [OF ex] have c2: "clock w2 = clock w1" by simp
  from execute_transfers_ledger [OF ex] res obtain new where new: "ledger w2 = ledger w1 @ new"
    "length new = length auths" "list_all (\<lambda>p. is_confirmed (snd p)) new"
    "hs = map (\<lambda>p. outcome_hash (snd p)) new"
    by auto
  have nl: "new_legs w w' = new"
    using new(1) l1 w' by (simp add: new_legs_def storeFacilitator_frame)
  have "kv w' (REDIS_KEY_PREFIX @ ident)
          = Some (fac\<lparr>totalPayments := totalPayments fac + 1, lastUsed := clock w2\<rparr>)"
    using w' fac by (simp add: kv_storeFacilitator)
  with fac s new nl ne c2 l1 show ?thesis
    by (cases auths) auto
qed

lemma decimal_digits_200000: "bigint_toString 200000 = ''200000''"
  by (simp add: bigint_toString_def decimal_digits.simps digit_char_def)

theorem batch_success_counts_once_witness:
  "fst (settle_batch_POST (ex_runtime 0) (ex_batch_body [ex_A, ex_C]) ex_world)
     = BatchSuccess
         \<lparr>bs_txHashes = [''0xtx0xn1'', ''0xtx0xn3''], bs_txHash = Some ''0xtx0xn1'',
          bs_facilitatorWallet = ex_wallet, bs_facilitatorName = ''Demo'',
          bs_transferCount = 2, bs_totalGasSpent = ''200000'',
          bs_network = ''Avalanche Fuji''\<rparr>
   \<and> kv ex_world (REDIS_KEY_PREFIX @ ''fac_1'') = Some ex_facilitator
   \<and> totalPayments ex_facilitator = 7
   \<and> map_option totalPayments
        (kv (snd (settle_batch_POST (ex_runtime 0) (ex_batch_body [ex_A, ex_C]) ex_world))
           (REDIS_KEY_PREFIX @ ''fac_1'')) = Some 8"
proof -
  let ?post = "settle_batch_POST (ex_runtime 0) (ex_batch_body [ex_A, ex_C]) ex_world"
  let ?s = "\<lparr>bs_txHashes = [''0xtx0xn1'', ''0xtx0xn3''], bs_txHash = Some ''0xtx0xn1'',
          bs_facilitatorWallet = ex_wallet, bs_facilitatorName = ''Demo'',
          bs_transferCount = 2, bs_totalGasSpent = ''200000'',
          bs_network = ''Avalanche Fuji''\<rparr>"
  have r: "batch_reaches_loop (ex_runtime 0) (ex_batch_body [ex_A, ex_C]) ex_world ''fac_1''
     ex_facilitator ex_world ex_nc ex_wallet [ex_A, ex_C]"
    using ex_ready [of "[ex_A, ex_C]" 0] by simp
  define wf where "wf = snd (execute_transfers (ex_runtime 0) ''fac_1'' ex_facilitator ex_nc
                ex_wallet [ex_A, ex_C] [] 0 ex_world)"
  have loop: "execute_transfers (ex_runtime 0) ''fac_1'' ex_facilitator ex_nc ex_wallet
                [ex_A, ex_C] [] 0 ex_world
     = (Inr ([''0xtx0xn1'', ''0xtx0xn3''], 200000), wf)"
    unfolding wf_def
    by (simp add: Let_def ex_chain_answer ex_chain_def call_nonce_batch_call ex_nonces
      gasSpent_of_def logEvent_frame ex_world_def is_confirmed_def)
  have names: "fac_name ex_facilitator = ''Demo''" "displayName ex_nc = ''Avalanche Fuji''"
    by (simp_all add: ex_facilitator_def ex_nc_def cfg_avalanche_fuji_def)
  have f: "fst ?post = BatchSuccess ?s"
    using settle_batch_POST_run [OF r]
    by (simp add: loop decimal_digits_200000 names del: execute_transfers.simps)
  then have p: "?post = (BatchSuccess ?s, snd ?post)"
    by (simp add: prod_eq_iff)
  have b: "bb_facilitatorId (ex_batch_body [ex_A, ex_C]) = Some ''fac_1''"
    "bb_authorizations (ex_batch_body [ex_A, ex_C]) = Some [ex_A, ex_C]"
    by (simp_all add: ex_batch_body_def)
  have k: "kv ex_world (REDIS_KEY_PREFIX @ ''fac_1'') = Some ex_facilitator"
    by (simp add: ex_world_def REDIS_KEY_PREFIX_def)
  have i: "fac_id ex_facilitator = ''fac_1''" "totalPayments ex_facilitator = 7"
    by (simp_all add: ex_facilitator_def)
  from batch_success_counts_once [OF p b k i(1)] f k i show ?thesis
    by auto
qed

section \<open>Single settlement handler\<close>

lemma settle_custom_POST_run:
  assumes "custom_reaches_call rt body w fid pp fac w1 nc uc wl"
  shows "settle_custom_POST rt body w =
           (let call = custom_call body pp nc uc wl;
                outcome = chain_answer rt (ledger w1) call;
                w2 = w1\<lparr>ledger := ledger w1 @ [(call, outcome)]\<rparr>
            in case outcome of
                 SubmitFailed msg \<Rightarrow> (custom_failed (Error msg), w2)
               | ConfirmFailed h msg \<Rightarrow> (custom_failed (Error msg), w2)
               | Confirmed h rcpt \<Rightarrow>
                   (CustomSuccess
                      \<lparr>cs_txHash = h, cs_facilitatorWallet = wl,
                       cs_facilitatorName = fac_name fac,
                       cs_network = resolve_network (rt_env rt) body fac,
                       cs_networkId = chain_id (chain nc),
                       cs_usdcAddress = finalUsdcAddress body pp uc\<rparr>,
                    logEvent
                      (TransactionEvent fid (fac_name fac) h (chain_id (chain nc)) (displayName nc)
                         (j_from (pp_authorization pp)) (j_to (pp_authorization pp))
                         (j_value (pp_authorization pp))
                         (case rcpt of None \<Rightarrow> ''0''
                          | Some rc \<Rightarrow> bigint_toString (int (gasSpent_of rc)))
                         ''success'')
                      (storeFacilitator (fac\<lparr>totalPayments := totalPayments fac + 1,
                                             lastUsed := clock w1\<rparr>)
                         (w1\<lparr>ledger := ledger w1 @ [(call, outcome)]\<rparr>))))"
proof -
  from assms have gf: "getFacilitator fid w = (Some fac, w1)"
    by (simp add: custom_reaches_call_def)
  have rp: "recordPayment fid (w1\<lparr>ledger := l\<rparr>)
           = (None, storeFacilitator (fac\<lparr>totalPayments := totalPayments fac + 1,
                                          lastUsed := clock w1\<rparr>) (w1\<lparr>ledger := l\<rparr>))" for l
    using recordPayment_after_read [OF gf, of "w1\<lparr>ledger := l\<rparr>"] by simp
  from assms rp show ?thesis
    by (auto simp: custom_reaches_call_def settle_custom_POST_def Let_def falsy_str_def
        custom_call_def split: sum.splits option.splits prod.splits leg_outcome.splits)
qed

lemma settle_custom_POST_early:
  assumes "settle_custom_POST rt body w = (resp, w')"
  shows "(\<exists>fid pp fac w1 nc uc wl. custom_reaches_call rt body w fid pp fac w1 nc uc wl)
       \<or> (ledger w' = ledger w
           \<and> (w' = w \<or> w' = snd (getFacilitator (the (sb_facilitatorId body)) w)))"
proof (cases "falsy_str (sb_facilitatorId body) \<or> sb_paymentPayload body = None")
  case True
  with assms show ?thesis by (auto simp: settle_custom_POST_def)
next
  case False
  then obtain fid pp where b: "sb_facilitatorId body = Some fid" "fid \<noteq> []"
    "sb_paymentPayload body = Some pp"
    by (auto simp: falsy_str_def split: option.splits)
  obtain r w1 where gf: "getFacilitator fid w = (r, w1)"
    by (cases "getFacilitator fid w")
  have l1: "ledger w1 = ledger w" using gf by (rule getFacilitator_frame)
  show ?thesis
  proof (cases r)
    case None
    with assms b gf l1 show ?thesis
      by (auto simp: settle_custom_POST_def falsy_str_def Let_def)
  next
    case (Some fac)
    show ?thesis
    proof (cases "\<exists>nc uc wl. custom_reaches_call rt body w fid pp fac w1 nc uc wl")
      case True
      then show ?thesis by blast
    next
      case False
      with assms b gf Some have "w' = w1"
        by (auto simp: settle_custom_POST_def custom_reaches_call_def falsy_str_def Let_def
            split: sum.splits if_splits)
      with l1 gf b show ?thesis by simp
    qed
  qed
qed

lemma batch_failed_keeps_counters:
  assumes "settle_batch_POST rt body w = (resp, w')"
    and "list_ex (\<lambda>p. failed_leg (snd p)) (new_legs w w')"
  shows "map_option totalPayments (kv w' k) = map_option totalPayments (kv w k)
       \<and> map_option lastUsed (kv w' k) = map_option lastUsed (kv w k)"
proof -
  from settle_batch_POST_early [OF assms(1)] assms(2)
  obtain fid fac w1 nc wl auths where ready: "batch_reaches_loop rt body w fid fac w1 nc wl auths"
    by (auto simp: new_legs_def)
  then have gf: "getFacilitator fid w = (Some fac, w1)"
    by (simp add: batch_reaches_loop_def)
  obtain res w2 where ex: "execute_transfers rt fid fac nc wl auths [] 0 w1 = (res, w2)"
    by (cases "execute_transfers rt fid fac nc wl auths [] 0 w1")
  from getFacilitator_frame [OF gf] have l1: "ledger w1 = ledger w" by simp
  from execute_transfers_ledger [OF ex] obtain new where new: "ledger w2 = ledger w1 @ new"
    "(\<exists>err. res = Inl err) \<or> list_all (\<lambda>p. is_confirmed (snd p)) new"
    by (cases res) auto
  show ?thesis
  proof (cases res)
    case (Inl err)
    with settle_batch_POST_run [OF ready] assms(1) ex have "w' = w2" by simp
    with execute_transfers_frame [OF ex] have "kv w' = kv w1" by simp
    with getFacilitator_frame(4,5) [OF gf] show ?thesis by simp
  next
    case (Inr p)
    obtain hs g where p: "p = (hs, g)" by (cases p)
    with Inr settle_batch_POST_run [OF ready] assms(1) ex
    have "ledger w' = ledger w2" by (auto simp: storeFacilitator_frame)
    with new l1 Inr p
    have "new_legs w w' = new" "list_all (\<lambda>p. is_confirmed (snd p)) new"
      by (simp_all add: new_legs_def)
    with assms(2) show ?thesis
      by (auto simp: list_ex_iff list_all_iff failed_leg_def)
  qed
qed

lemma custom_failed_keeps_counters:
  assumes "settle_custom_POST rt body w = (resp, w')"
    and "list_ex (\<lambda>p. failed_leg (snd p)) (new_legs w w')"
  shows "map_option totalPayments (kv w' k) = map_option totalPayments (kv w k)
       \<and> map_option lastUsed (kv w' k) = map_option lastUsed (kv w k)"
proof -
  from settle_custom_POST_early [OF assms(1)] assms(2)
  obtain fid pp fac w1 nc uc wl where ready: "custom_reaches_call rt body w fid pp fac w1 nc uc wl"
    by (auto simp: new_legs_def)
  then have gf: "getFacilitator fid w = (Some fac, w1)"
    by (simp add: custom_reaches_call_def)
  from getFacilitator_frame [OF gf] have l1: "ledger w1 = ledger w" by simp
  let ?call = "custom_call body pp nc uc wl"
  let ?out = "chain_answer rt (ledger w1) ?call"
  show ?thesis
  proof (cases "is_confirmed ?out")
    case True
    then obtain h rc where out: "?out = Confirmed h rc"
      by (cases ?out) (simp_all add: is_confirmed_def)
    with settle_custom_POST_run [OF ready] assms(1)
    have "ledger w' = ledger w1 @ [(?call, ?out)]"
      by (auto simp: Let_def logEvent_frame storeFacilitator_frame)
    with l1 have "new_legs w w' = [(?call, ?out)]" by (simp add: new_legs_def)
    with assms(2) True show ?thesis by (simp add: failed_leg_def)
  next
    case False
    with settle_custom_POST_run [OF ready] assms(1)
    have "w' = w1\<lparr>ledger := ledger w1 @ [(?call, ?out)]\<rparr>"
      by (cases ?out) (auto simp: Let_def is_confirmed_def)
    then have "kv w' = kv w1" by simp
    with getFacilitator_frame(4,5) [OF gf] show ?thesis by simp
  qed
qed

text \<open>
  C4. When a settlement attempt, batch or single, has a leg whose submission or confirmation
  fails, every stored facilitator record has the totalPayments and lastUsed it had before
  the attempt.
\<close>

theorem failed_settlement_keeps_counters:
  "(settle_batch_POST rt bbody w = (bresp, bw) \<and> list_ex (\<lambda>p. failed_leg (snd p)) (new_legs w bw)
      \<longrightarrow> map_option totalPayments (kv bw k) = map_option totalPayments (kv w k)
          \<and> map_option lastUsed (kv bw k) = map_option lastUsed (kv w k))
   \<and> (settle_custom_POST rt sbody w = (sresp, sw) \<and> list_ex (\<lambda>p. failed_leg (snd p)) (new_legs w sw)
      \<longrightarrow> map_option totalPayments (kv sw k) = map_option totalPayments (kv w k)
          \<and> map_option lastUsed (kv sw k) = map_option lastUsed (kv w k))"
  using batch_failed_keeps_counters [of rt bbody w bresp bw k]
    custom_failed_keeps_counters [of rt sbody w sresp sw k]
  by blast

lemma call_contract_of: "call_contract (transfer_call_of rpc c wl sg au) = c"
  by (simp add: transfer_call_of_def Let_def)

lemma call_nonce_of: "call_nonce (transfer_call_of rpc c wl sg au) = j_nonce au"
  by (simp add: transfer_call_of_def Let_def)

lemma finalUsdcAddress_first_match:
  "finalUsdcAddress body pp uc =
     (if valid_candidate (sb_usdcAddress body) then the (sb_usdcAddress body)
      else if valid_candidate (sb_contractAddress body) then the (sb_contractAddress body)
      else if valid_candidate (sb_verifyingContract body) then the (sb_verifyingContract body)
      else if valid_candidate (payload_verifyingContract pp) then the (payload_verifyingContract pp)
      else uc_address uc)"
  by (simp add: finalUsdcAddress_def candidateAddresses_def)

lemma USDC_CONTRACTS_agree:
  assumes "getUSDCContract e n = Inr uc" and "getNetworkConfig e n = Inr nc"
  shows "uc_address uc = usdcAddress nc"
  using assms
  by (auto simp: getUSDCContract_def getNetworkConfig_def USDC_CONTRACTS_def NETWORK_CONFIGS_def
      cfg_avalanche_fuji_def cfg_ethereum_sepolia_def cfg_base_sepolia_def cfg_polygon_amoy_def
      env_or_def split: if_splits option.splits)

text \<open>
  C5, amended. In a single settlement that reaches the contract call, the token contract
  address is the first of these that is a string other than \<^verbatim>\<open>0x\<close> of at least 42
  characters: the request's usdcAddress, its contractAddress, its verifyingContract, the
  verifyingContract of the payment payload's domain; failing all four it is the USDC
  address configured for the resolved network.
\<close>

theorem token_address_first_match:
  assumes "custom_reaches_call rt body w fid pp fac w1 nc uc wl"
  shows "\<exists>c out. new_legs w (snd (settle_custom_POST rt body w)) = [(c, out)]
           \<and> call_contract c =
               (if valid_candidate (sb_usdcAddress body) then the (sb_usdcAddress body)
                else if valid_candidate (sb_contractAddress body) then the (sb_contractAddress body)
                else if valid_candidate (sb_verifyingContract body)
                  then the (sb_verifyingContract body)
                else if valid_candidate (payload_verifyingContract pp)
                  then the (payload_verifyingContract pp)
                else usdcAddress nc)"
proof -
  from assms have gf: "getFacilitator fid w = (Some fac, w1)"
    and uc: "getUSDCContract (rt_env rt) (resolve_network (rt_env rt) body fac) = Inr uc"
    and nc: "getNetworkConfig (rt_env rt) (resolve_network (rt_env rt) body fac) = Inr nc"
    by (simp_all add: custom_reaches_call_def)
  from getFacilitator_frame [OF gf] have l1: "ledger w1 = ledger w" by simp
  let ?call = "custom_call body pp nc uc wl"
  let ?out = "chain_answer rt (ledger w1) ?call"
  have "ledger (snd (settle_custom_POST rt body w)) = ledger w1 @ [(?call, ?out)]"
    using settle_custom_POST_run [OF assms]
    by (cases ?out) (auto simp: Let_def logEvent_frame storeFacilitator_frame)
  with l1 have n: "new_legs w (snd (settle_custom_POST rt body w)) = [(?call, ?out)]"
    by (simp add: new_legs_def)
  have "call_contract ?call = finalUsdcAddress body pp uc"
    by (simp add: custom_call_def call_contract_of)
  with n USDC_CONTRACTS_agree [OF uc nc] show ?thesis
    by (simp add: finalUsdcAddress_first_match)
qed

lemma ex_custom_body_payload:
  "sb_paymentPayload (ex_custom_body n d) = Some (ex_payload n d)"
  "sb_facilitatorId (ex_custom_body n d) = Some ''fac_1''"
  "sb_usdcAddress (ex_custom_body n d) = None"
  "sb_contractAddress (ex_custom_body n d) = None"
  "sb_verifyingContract (ex_custom_body n d) = None"
  by (simp_all add: ex_custom_body_def ex_payload_def)

lemma ex_read_used: "getFacilitator ''fac_1'' ex_world_used = (Some ex_facilitator, ex_world_used)"
  by (simp add: getFacilitator_def ex_world_used_def ex_world_def REDIS_KEY_PREFIX_def
      ex_facilitator_def falsy_str_def falsy_num_def)

lemma ex_resolve: "resolve_network (rt_env (ex_runtime b)) (ex_custom_body n d) fac = ''avalanche-fuji''"
  by (simp add: resolve_network_def ex_custom_body_def falsy_str_def isNetworkSupported_def
      NETWORK_CONFIGS_def)

lemma ex_custom_ready:
  assumes "getFacilitator ''fac_1'' w = (Some ex_facilitator, w)"
  shows "custom_reaches_call (ex_runtime b) (ex_custom_body n d) w ''fac_1'' (ex_payload n d)
           ex_facilitator w ex_nc ex_uc ex_wallet"
  using assms
  by (simp add: custom_reaches_call_def ex_custom_body_payload ex_resolve)
    (simp add: ex_rt_env getNetworkConfig_def NETWORK_CONFIGS_def ex_nc_def getUSDCContract_def
      USDC_CONTRACTS_def ex_uc_def falsy_str_def ex_runtime_def ex_wallet_def)

lemma ex_nonce_payload: "j_nonce (pp_authorization (ex_payload n d)) = n"
  by (simp add: ex_payload_def ex_auth_def)

lemma ex_custom_replay:
  "fst (settle_custom_POST (ex_runtime 0) (ex_custom_body ''0xn1'' None) ex_world_used)
     = CustomError 500 ''Settlement failed'' (Some ''authorization is used or canceled'')"
  "ledger (snd (settle_custom_POST (ex_runtime 0) (ex_custom_body ''0xn1'' None) ex_world_used))
     = ledger ex_world_used
       @ [(custom_call (ex_custom_body ''0xn1'' None) (ex_payload ''0xn1'' None) ex_nc ex_uc ex_wallet,
           SubmitFailed ''authorization is used or canceled'')]"
  "kv (snd (settle_custom_POST (ex_runtime 0) (ex_custom_body ''0xn1'' None) ex_world_used))
     = kv ex_world"
proof -
  let ?call = "custom_call (ex_custom_body ''0xn1'' None) (ex_payload ''0xn1'' None) ex_nc ex_uc ex_wallet"
  have out: "chain_answer (ex_runtime 0) (ledger ex_world_used) ?call
      = SubmitFailed ''authorization is used or canceled''"
    by (simp add: ex_chain_answer ex_chain_def ex_world_used_def call_nonce_batch_call ex_nonces
        is_confirmed_def custom_call_def call_nonce_of ex_nonce_payload)
  have post: "settle_custom_POST (ex_runtime 0) (ex_custom_body ''0xn1'' None) ex_world_used
      = (CustomError 500 ''Settlement failed'' (Some ''authorization is used or canceled''),
         ex_world_used\<lparr>ledger := ledger ex_world_used
            @ [(?call, SubmitFailed ''authorization is used or canceled'')]\<rparr>)"
    using settle_custom_POST_run [OF ex_custom_ready [OF ex_read_used], of 0 "''0xn1''" None]
    by (simp add: out Let_def custom_failed_def message_or_unknown_def)
  from post show "fst (settle_custom_POST (ex_runtime 0) (ex_custom_body ''0xn1'' None) ex_world_used)
     = CustomError 500 ''Settlement failed'' (Some ''authorization is used or canceled'')"
    by simp
  from post show "ledger (snd (settle_custom_POST (ex_runtime 0) (ex_custom_body ''0xn1'' None) ex_world_used))
     = ledger ex_world_used @ [(?call, SubmitFailed ''authorization is used or canceled'')]"
    by simp
  from post show "kv (snd (settle_custom_POST (ex_runtime 0) (ex_custom_body ''0xn1'' None) ex_world_used))
     = kv ex_world"
    by (simp add: ex_world_used_def)
qed

theorem failed_settlement_keeps_counters_witness:
  "list_ex (\<lambda>p. failed_leg (snd p))
     (new_legs ex_world
        (snd (settle_batch_POST (ex_runtime 0) (ex_batch_body [ex_A, ex_B, ex_C]) ex_world)))
   \<and> map_option totalPayments
        (kv (snd (settle_batch_POST (ex_runtime 0) (ex_batch_body [ex_A, ex_B, ex_C]) ex_world))
           ''facilitator:fac_1'') = Some 7
   \<and> list_ex (\<lambda>p. failed_leg (snd p))
     (new_legs ex_world_used
        (snd (settle_custom_POST (ex_runtime 0) (ex_custom_body ''0xn1'' None) ex_world_used)))
   \<and> map_option totalPayments
        (kv (snd (settle_custom_POST (ex_runtime 0) (ex_custom_body ''0xn1'' None) ex_world_used))
           ''facilitator:fac_1'') = Some 7
   \<and> map_option lastUsed
        (kv (snd (settle_custom_POST (ex_runtime 0) (ex_custom_body ''0xn1'' None) ex_world_used))
           ''facilitator:fac_1'') = Some 1700000000000"
proof -
  let ?bp = "settle_batch_POST (ex_runtime 0) (ex_batch_body [ex_A, ex_B, ex_C]) ex_world"
  let ?sp = "settle_custom_POST (ex_runtime 0) (ex_custom_body ''0xn1'' None) ex_world_used"
  have l0: "ledger ex_world = []" by (simp add: ex_world_def)
  have bf: "list_ex (\<lambda>p. failed_leg (snd p)) (new_legs ex_world (snd ?bp))"
    by (simp add: new_legs_def ex_batch_ABC(2) failed_leg_def is_confirmed_def l0)
  have sf: "list_ex (\<lambda>p. failed_leg (snd p)) (new_legs ex_world_used (snd ?sp))"
    by (simp add: new_legs_def ex_custom_replay(2) failed_leg_def is_confirmed_def)
  have k: "map_option totalPayments (kv ex_world ''facilitator:fac_1'') = Some 7"
    "map_option lastUsed (kv ex_world ''facilitator:fac_1'') = Some 1700000000000"
    "kv ex_world_used = kv ex_world"
    by (simp_all add: ex_world_def ex_facilitator_def ex_world_used_def)
  have bp: "?bp = (fst ?bp, snd ?bp)" and sp: "?sp = (fst ?sp, snd ?sp)" by simp_all
  from failed_settlement_keeps_counters [where rt = "ex_runtime 0"
      and bbody = "ex_batch_body [ex_A, ex_B, ex_C]" and w = ex_world and bresp = "fst ?bp"
      and bw = "snd ?bp" and k = "''facilitator:fac_1''"] bp bf k
  have b7: "map_option totalPayments (kv (snd ?bp) ''facilitator:fac_1'') = Some 7"
    by simp
  from failed_settlement_keeps_counters [where rt = "ex_runtime 0"
      and sbody = "ex_custom_body ''0xn1'' None" and w = ex_world_used and sresp = "fst ?sp"
      and sw = "snd ?sp" and k = "''facilitator:fac_1''"] sp sf k
  have s7: "map_option totalPayments (kv (snd ?sp) ''facilitator:fac_1'') = Some 7"
    "map_option lastUsed (kv (snd ?sp) ''facilitator:fac_1'') = Some 1700000000000"
    by simp_all
  from bf sf b7 s7 show ?thesis by blast
qed

lemma ex_final_domain:
  "finalUsdcAddress (ex_custom_body n (Some ex_domain)) (ex_payload n (Some ex_domain)) ex_uc
     = ''0xAAAAAAAAAAAAAAAAAAAAAAAAAAAAAAAAAAAAAAAA''"
  by (simp add: finalUsdcAddress_first_match ex_custom_body_payload payload_verifyingContract_def
      ex_payload_def ex_domain_def valid_candidate_def)

lemma ex_custom_domain_run:
  "fst (settle_custom_POST (ex_runtime 0) (ex_custom_body ''0xn5'' (Some ex_domain)) ex_world)
     = CustomSuccess
         \<lparr>cs_txHash = ''0xtx0xn5'', cs_facilitatorWallet = ex_wallet,
          cs_facilitatorName = ''Demo'', cs_network = ''avalanche-fuji'', cs_networkId = 43113,
          cs_usdcAddress = ''0xAAAAAAAAAAAAAAAAAAAAAAAAAAAAAAAAAAAAAAAA''\<rparr>"
  "ledger (snd (settle_custom_POST (ex_runtime 0) (ex_custom_body ''0xn5'' (Some ex_domain)) ex_world))
     = [(custom_call (ex_custom_body ''0xn5'' (Some ex_domain)) (ex_payload ''0xn5'' (Some ex_domain))
           ex_nc ex_uc ex_wallet,
         Confirmed ''0xtx0xn5'' (Some \<lparr>gasUsed = 50000, gasPrice = Some 2\<rparr>))]"
proof -
  let ?b = "ex_custom_body ''0xn5'' (Some ex_domain)"
  let ?call = "custom_call ?b (ex_payload ''0xn5'' (Some ex_domain)) ex_nc ex_uc ex_wallet"
  have l0: "ledger ex_world = []" by (simp add: ex_world_def)
  have out: "chain_answer (ex_runtime 0) [] ?call
      = Confirmed ''0xtx0xn5'' (Some \<lparr>gasUsed = 50000, gasPrice = Some 2\<rparr>)"
    by (simp add: ex_chain_answer ex_chain_def custom_call_def call_nonce_of ex_nonce_payload)
  have names: "fac_name ex_facilitator = ''Demo''" "chain_id (chain ex_nc) = 43113"
    by (simp_all add: ex_facilitator_def ex_nc_def cfg_avalanche_fuji_def avalancheFuji_def)
  from settle_custom_POST_run [OF ex_custom_ready [OF ex_read_fac_1], of 0 "''0xn5''" "Some ex_domain"]
  show "fst (settle_custom_POST (ex_runtime 0) ?b ex_world)
     = CustomSuccess
         \<lparr>cs_txHash = ''0xtx0xn5'', cs_facilitatorWallet = ex_wallet,
          cs_facilitatorName = ''Demo'', cs_network = ''avalanche-fuji'', cs_networkId = 43113,
          cs_usdcAddress = ''0xAAAAAAAAAAAAAAAAAAAAAAAAAAAAAAAAAAAAAAAA''\<rparr>"
    by (simp add: l0 out Let_def names ex_resolve ex_final_domain)
  from settle_custom_POST_run [OF ex_custom_ready [OF ex_read_fac_1], of 0 "''0xn5''" "Some ex_domain"]
  show "ledger (snd (settle_custom_POST (ex_runtime 0) ?b ex_world))
     = [(?call, Confirmed ''0xtx0xn5'' (Some \<lparr>gasUsed = 50000, gasPrice = Some 2\<rparr>))]"
    by (simp add: out Let_def logEvent_frame storeFacilitator_frame l0)
qed

theorem token_address_first_match_witness:
  "custom_reaches_call (ex_runtime 0) (ex_custom_body ''0xn5'' (Some ex_domain)) ex_world ''fac_1''
     (ex_payload ''0xn5'' (Some ex_domain)) ex_facilitator ex_world ex_nc ex_uc ex_wallet
   \<and> (\<exists>c out. new_legs ex_world
         (snd (settle_custom_POST (ex_runtime 0) (ex_custom_body ''0xn5'' (Some ex_domain)) ex_world))
           = [(c, out)]
        \<and> call_contract c = ''0xAAAAAAAAAAAAAAAAAAAAAAAAAAAAAAAAAAAAAAAA'')
   \<and> custom_reaches_call (ex_runtime 0) (ex_custom_body ''0xn6'' None) ex_world ''fac_1''
     (ex_payload ''0xn6'' None) ex_facilitator ex_world ex_nc ex_uc ex_wallet
   \<and> (\<exists>c out. new_legs ex_world
         (snd (settle_custom_POST (ex_runtime 0) (ex_custom_body ''0xn6'' None) ex_world))
           = [(c, out)]
        \<and> call_contract c = ''0x5425890298aed601595a70AB815c96711a31Bc65'')"
proof -
  have r1: "custom_reaches_call (ex_runtime 0) (ex_custom_body ''0xn5'' (Some ex_domain)) ex_world
     ''fac_1'' (ex_payload ''0xn5'' (Some ex_domain)) ex_facilitator ex_world ex_nc ex_uc ex_wallet"
    by (rule ex_custom_ready [OF ex_read_fac_1])
  have r2: "custom_reaches_call (ex_runtime 0) (ex_custom_body ''0xn6'' None) ex_world
     ''fac_1'' (ex_payload ''0xn6'' None) ex_facilitator ex_world ex_nc ex_uc ex_wallet"
    by (rule ex_custom_ready [OF ex_read_fac_1])
  have v: "valid_candidate (payload_verifyingContract (ex_payload ''0xn5'' (Some ex_domain)))"
    "the (payload_verifyingContract (ex_payload ''0xn5'' (Some ex_domain)))
       = ''0xAAAAAAAAAAAAAAAAAAAAAAAAAAAAAAAAAAAAAAAA''"
    "\<not> valid_candidate (payload_verifyingContract (ex_payload ''0xn6'' None))"
    "\<not> valid_candidate None"
    "usdcAddress ex_nc = ''0x5425890298aed601595a70AB815c96711a31Bc65''"
    by (simp_all add: payload_verifyingContract_def ex_payload_def ex_domain_def
        valid_candidate_def ex_nc_def cfg_avalanche_fuji_def)
  from token_address_first_match [OF r1] v
  have a: "\<exists>c out. new_legs ex_world
         (snd (settle_custom_POST (ex_runtime 0) (ex_custom_body ''0xn5'' (Some ex_domain)) ex_world))
           = [(c, out)]
        \<and> call_contract c = ''0xAAAAAAAAAAAAAAAAAAAAAAAAAAAAAAAAAAAAAAAA''"
    by (simp add: ex_custom_body_payload)
  from token_address_first_match [OF r2] v
  have b: "\<exists>c out. new_legs ex_world
         (snd (settle_custom_POST (ex_runtime 0) (ex_custom_body ''0xn6'' None) ex_world))
           = [(c, out)]
        \<and> call_contract c = ''0x5425890298aed601595a70AB815c96711a31Bc65''"
    by (simp add: ex_custom_body_payload)
  from r1 r2 a b show ?thesis by blast
qed

text \<open>
  C5 as stated does not hold: a request without usdcAddress, contractAddress and
  verifyingContract whose payment payload carries a signing domain is settled on the
  domain's verifyingContract, not on the registry's address.
\<close>

theorem token_address_from_payload_domain:
  "sb_usdcAddress (ex_custom_body ''0xn5'' (Some ex_domain)) = None
   \<and> sb_contractAddress (ex_custom_body ''0xn5'' (Some ex_domain)) = None
   \<and> sb_verifyingContract (ex_custom_body ''0xn5'' (Some ex_domain)) = None
   \<and> usdcAddress ex_nc = ''0x5425890298aed601595a70AB815c96711a31Bc65''
   \<and> fst (settle_custom_POST (ex_runtime 0) (ex_custom_body ''0xn5'' (Some ex_domain)) ex_world)
       = CustomSuccess
           \<lparr>cs_txHash = ''0xtx0xn5'', cs_facilitatorWallet = ex_wallet,
            cs_facilitatorName = ''Demo'', cs_network = ''avalanche-fuji'', cs_networkId = 43113,
            cs_usdcAddress = ''0xAAAAAAAAAAAAAAAAAAAAAAAAAAAAAAAAAAAAAAAA''\<rparr>
   \<and> call_contract (fst (hd (ledger
        (snd (settle_custom_POST (ex_runtime 0) (ex_custom_body ''0xn5'' (Some ex_domain)) ex_world)))))
       = ''0xAAAAAAAAAAAAAAAAAAAAAAAAAAAAAAAAAAAAAAAA''"
proof -
  have u: "usdcAddress ex_nc = ''0x5425890298aed601595a70AB815c96711a31Bc65''"
    by (simp add: ex_nc_def cfg_avalanche_fuji_def)
  have c: "call_contract (custom_call (ex_custom_body ''0xn5'' (Some ex_domain))
              (ex_payload ''0xn5'' (Some ex_domain)) ex_nc ex_uc ex_wallet)
        = ''0xAAAAAAAAAAAAAAAAAAAAAAAAAAAAAAAAAAAAAAAA''"
    by (simp add: custom_call_def call_contract_of ex_final_domain)
  from u c ex_custom_domain_run show ?thesis
    by (simp add: ex_custom_body_payload)
qed

end
